theory Spec2Isabelle
  imports Complex_Main
begin

section \<open>The mesh creators of the editor\<close>

text \<open>
  The development embeds the mesh-creation strategies declared next to
  \<^verbatim>\<open>MeshLike\<close> and \<^verbatim>\<open>MeshCreator\<close>: \<^verbatim>\<open>BasicMeshCreator\<close>,
  \<^verbatim>\<open>ParallelMeshCreator\<close>, \<^verbatim>\<open>ObjectCacheMeshCreator\<close> and
  \<^verbatim>\<open>FaceCacheMeshCreator\<close>, together with \<^verbatim>\<open>formAndPrecisionCacheKey\<close>.

  The geometry kernel (\<^verbatim>\<open>c3d\<close>) is not part of the sources. Its asynchronous
  entry points are taken as a parameter, the record \<open>Kernel\<close>: for every call it
  tells how many ticks later the call settles and with which outcome.
\<close>

subsection \<open>Kernel objects\<close>

text \<open>
  A \<^verbatim>\<open>c3d.CurveEdge\<close> is used through its identity only (it is put into a
  \<^verbatim>\<open>Set\<close> and stored as \<^verbatim>\<open>model\<close>). A \<^verbatim>\<open>bigint\<close> is an \<open>int\<close>.
\<close>

type_synonym CurveEdge = int

record Face =
  Face_Id :: int
  GetOwnChanged :: bool
  GetNameHash :: int
  GetStyle :: int
  Face_GetEdges :: "CurveEdge list"

datatype SpaceType = Solid | Mesh | Curve3D | PlaneInstance

text \<open>
  For a solid, \<open>GetFaces\<close> is \<^verbatim>\<open>solid.GetShell()!.GetFaces()\<close> and
  \<open>Item_GetEdges\<close> is \<^verbatim>\<open>solid.GetEdges()\<close>.
\<close>

record Item =
  IsA :: SpaceType
  Item_Id :: int
  GetFaces :: "Face list"
  Item_GetEdges :: "CurveEdge list"

record StepData =
  GetSag :: real

record FormNote =
  Quad :: bool
  Fair :: bool

text \<open>The three buffers of a grid, \<^verbatim>\<open>grid.GetBuffers()\<close>.\<close>

record GridBuffers =
  index :: "nat list"
  position :: "real list"
  normal :: "real list"

text \<open>
  \<^verbatim>\<open>c3d.MeshBuffer\<close> as \<^verbatim>\<open>calculateFace\<close> builds it; the field
  \<^verbatim>\<open>grid\<close>, the kernel object the three buffers are read from, is left out.
\<close>

record MeshBuffer =
  mb_index :: "nat list"
  mb_position :: "real list"
  mb_normal :: "real list"
  mb_model :: Face
  mb_style :: int
  mb_simpleName :: int
  mb_i :: nat

text \<open>\<^verbatim>\<open>c3d.EdgeBuffer\<close>: a polyline with the two fields \<^verbatim>\<open>calculateEdge\<close> assigns.\<close>

record EdgeBuffer =
  eb_position :: "real list"
  eb_model :: CurveEdge
  eb_i :: nat

record MeshLike =
  faces :: "MeshBuffer list"
  edges :: "EdgeBuffer list"

subsection \<open>Promises\<close>

text \<open>
  The reason a kernel call rejects with.
\<close>

datatype error = KernelError nat

text \<open>
  A promise is the tick at which it settles and what it settles with
  (\<open>Inl\<close>: rejected). The kernel parameter fixes both when the call is issued.
\<close>

type_synonym 'a Promise = "nat \<times> (error + 'a)"

text \<open>
  A reaction registered at tick \<open>t\<close> on a promise runs when the promise settles,
  or at once when it has settled already.
\<close>

definition reaction_time :: "nat \<Rightarrow> 'a Promise \<Rightarrow> nat" where
  "reaction_time t p = max t (fst p)"

text \<open>
  \<^verbatim>\<open>Promise.all\<close>, called at tick \<open>t\<close>. It rejects with the reason of the
  input whose reaction runs first (reactions on inputs that have settled by \<open>t\<close>
  run in the order of the inputs), and fulfils when the last input has.
\<close>

fun first_rejection :: "nat \<Rightarrow> 'a Promise list \<Rightarrow> (nat \<times> error) option" where
  "first_rejection t [] = None"
| "first_rejection t (p # ps) =
     (case snd p of
        Inr v \<Rightarrow> first_rejection t ps
      | Inl e \<Rightarrow>
          (case first_rejection t ps of
             None \<Rightarrow> Some (reaction_time t p, e)
           | Some (u, e') \<Rightarrow>
               if reaction_time t p \<le> u then Some (reaction_time t p, e) else Some (u, e')))"

fun fulfilled_values :: "'a Promise list \<Rightarrow> 'a list" where
  "fulfilled_values [] = []"
| "fulfilled_values (p # ps) =
     (case snd p of Inr v \<Rightarrow> v # fulfilled_values ps | Inl e \<Rightarrow> fulfilled_values ps)"

fun last_reaction :: "nat \<Rightarrow> 'a Promise list \<Rightarrow> nat" where
  "last_reaction t [] = t"
| "last_reaction t (p # ps) = max (reaction_time t p) (last_reaction t ps)"

definition Promise_all :: "nat \<Rightarrow> 'a Promise list \<Rightarrow> 'a list Promise" where
  "Promise_all t ps =
     (case first_rejection t ps of
        Some (u, e) \<Rightarrow> (u, Inl e)
      | None \<Rightarrow> (last_reaction t ps, Inr (fulfilled_values ps)))"

text \<open>
  The loop \<^verbatim>\<open>for (const edge of edges_) if (edge !== undefined) edges.push(edge)\<close>.
\<close>

fun defined_edges :: "EdgeBuffer option list \<Rightarrow> EdgeBuffer list" where
  "defined_edges [] = []"
| "defined_edges (None # es) = defined_edges es"
| "defined_edges (Some e # es) = e # defined_edges es"

subsection \<open>The kernel and the state of the process\<close>

text \<open>
  \<^verbatim>\<open>c3d.Mesh\<close>, the result of \<^verbatim>\<open>CalculateMesh_async\<close> and
  \<^verbatim>\<open>CreateMesh_async\<close>, is opaque; \<open>Mesh_GetEdges\<close> and \<open>Mesh_GetBuffers\<close> read it.
  The first argument of an asynchronous entry point is the number of events logged
  before the call, so that two calls with the same arguments may end differently.
  The first component of its result is the delay: a call issued at tick \<open>t\<close>
  settles at tick \<open>t + Suc delay\<close>.
\<close>

type_synonym c3d_Mesh = nat

record Kernel =
  CalculateGrid_async :: "nat \<Rightarrow> Face \<Rightarrow> StepData \<Rightarrow> FormNote \<Rightarrow> nat \<times> (error + GridBuffers)"
  CalculateMesh_async :: "nat \<Rightarrow> CurveEdge \<Rightarrow> StepData \<Rightarrow> FormNote \<Rightarrow> nat \<times> (error + c3d_Mesh)"
  CreateMesh_async :: "nat \<Rightarrow> Item \<Rightarrow> StepData \<Rightarrow> FormNote \<Rightarrow> nat \<times> (error + c3d_Mesh)"
  Mesh_GetEdges :: "c3d_Mesh \<Rightarrow> bool \<Rightarrow> EdgeBuffer list"
  Mesh_GetBuffers :: "c3d_Mesh \<Rightarrow> MeshBuffer list"

text \<open>What the process does to the kernel, in the order it does it.\<close>

datatype Event =
    EnterParallelRegion
  | ExitParallelRegion
  | CalculateGrid int nat
  | CalculateMesh CurveEdge nat
  | CreateMesh int

text \<open>
  The part of an asynchronous function after an \<^verbatim>\<open>await\<close> runs later. The two
  continuations with an effect on the state are queued with the tick they run at:
  the \<^verbatim>\<open>faceCache.set\<close> of \<^verbatim>\<open>cacheFace\<close> and the
  \<^verbatim>\<open>c3d.Mutex.ExitParallelRegion()\<close> of \<^verbatim>\<open>create\<close>.
\<close>

datatype Effect =
    FaceCache_set int "MeshBuffer \<times> EdgeBuffer list"
  | Mutex_ExitParallelRegion

text \<open>
  \<open>faceCache\<close> is the table of the \<^verbatim>\<open>FaceCacheMeshCreator\<close>, \<open>history\<close> the
  table \<^verbatim>\<open>copier.faces\<close> it reads the lineage of a face from.
\<close>

record State =
  now :: nat
  events :: "Event list"
  queue :: "(nat \<times> Effect) list"
  faceCache :: "int \<rightharpoonup> MeshBuffer \<times> EdgeBuffer list"
  history :: "int \<rightharpoonup> int"

type_synonym 's MeshCreator =
  "'s \<Rightarrow> Item \<Rightarrow> StepData \<Rightarrow> FormNote \<Rightarrow> bool \<Rightarrow> MeshLike Promise \<times> 's"

definition emit :: "Event \<Rightarrow> State \<Rightarrow> State" where
  "emit ev s = s\<lparr>events := events s @ [ev]\<rparr>"

definition enqueue :: "(nat \<times> Effect) list \<Rightarrow> State \<Rightarrow> State" where
  "enqueue effs s = s\<lparr>queue := queue s @ effs\<rparr>"

fun apply_effect :: "State \<Rightarrow> Effect \<Rightarrow> State" where
  "apply_effect s (FaceCache_set k entry) = s\<lparr>faceCache := (faceCache s)(k \<mapsto> entry)\<rparr>"
| "apply_effect s Mutex_ExitParallelRegion = emit ExitParallelRegion s"

text \<open>
  Time passes up to tick \<open>t\<close>: the queued continuations due by then run, the
  earlier first, those of one tick in the order they were queued.
\<close>

definition settle_until :: "nat \<Rightarrow> State \<Rightarrow> State" where
  "settle_until t s =
     foldl apply_effect
       (s\<lparr>now := max (now s) t, queue := filter (\<lambda>q. \<not> fst q \<le> t) (queue s)\<rparr>)
       (map snd (sort_key fst (filter (\<lambda>q. fst q \<le> t) (queue s))))"

text \<open>The number of parallel regions entered and not left.\<close>

fun region_depth :: "Event list \<Rightarrow> int" where
  "region_depth [] = 0"
| "region_depth (EnterParallelRegion # evs) = region_depth evs + 1"
| "region_depth (ExitParallelRegion # evs) = region_depth evs - 1"
| "region_depth (ev # evs) = region_depth evs"

subsection \<open>BasicMeshCreator and ParallelMeshCreator\<close>

definition BasicMeshCreator_create :: "Kernel \<Rightarrow> State MeshCreator" where
  "BasicMeshCreator_create K s obj stepData formNote outlinesOnly =
     (let (d, r) = CreateMesh_async K (length (events s)) obj stepData formNote;
          s1 = emit (CreateMesh (Item_Id obj)) s
      in ((now s + Suc d,
           case r of
             Inl e \<Rightarrow> Inl e
           | Inr mesh \<Rightarrow>
               Inr \<lparr>faces = Mesh_GetBuffers K mesh,
                    edges = Mesh_GetEdges K mesh outlinesOnly\<rparr>),
          s1))"

definition calculateFace ::
  "Kernel \<Rightarrow> State \<Rightarrow> Face \<Rightarrow> StepData \<Rightarrow> FormNote \<Rightarrow> nat \<Rightarrow> MeshBuffer Promise \<times> State" where
  "calculateFace K s face stepData formNote i =
     (let simpleName = GetNameHash face;
          (d, r) = CalculateGrid_async K (length (events s)) face stepData formNote;
          s1 = emit (CalculateGrid (Face_Id face) i) s
      in ((now s + Suc d,
           case r of
             Inl e \<Rightarrow> Inl e
           | Inr g \<Rightarrow>
               Inr \<lparr>mb_index = index g, mb_position = position g, mb_normal = normal g,
                    mb_model = face, mb_style = GetStyle face,
                    mb_simpleName = simpleName, mb_i = i\<rparr>),
          s1))"

definition calculateEdge ::
  "Kernel \<Rightarrow> State \<Rightarrow> CurveEdge \<Rightarrow> StepData \<Rightarrow> FormNote \<Rightarrow> bool \<Rightarrow> nat
     \<Rightarrow> EdgeBuffer option Promise \<times> State" where
  "calculateEdge K s edge stepData formNote outlinesOnly i =
     (let (d, r) = CalculateMesh_async K (length (events s)) edge stepData formNote;
          s1 = emit (CalculateMesh edge i) s
      in ((now s + Suc d,
           case r of
             Inl e \<Rightarrow> Inl e
           | Inr mesh \<Rightarrow>
               (case Mesh_GetEdges K mesh outlinesOnly of
                  [] \<Rightarrow> Inr None
                | polygon # rest \<Rightarrow> Inr (Some (polygon\<lparr>eb_i := i, eb_model := edge\<rparr>)))),
          s1))"

text \<open>
  The two loops of \<^verbatim>\<open>ParallelMeshCreator.create\<close>, over
  \<^verbatim>\<open>faces.entries()\<close> and \<^verbatim>\<open>edges.entries()\<close>; \<open>i\<close> is the index of the
  head of the list.
\<close>

fun calculateFaces ::
  "Kernel \<Rightarrow> StepData \<Rightarrow> FormNote \<Rightarrow> nat \<Rightarrow> Face list \<Rightarrow> State
     \<Rightarrow> MeshBuffer Promise list \<times> State" where
  "calculateFaces K stepData formNote i [] s = ([], s)"
| "calculateFaces K stepData formNote i (face # rest) s =
     (let (p, s1) = calculateFace K s face stepData formNote i;
          (ps, s2) = calculateFaces K stepData formNote (Suc i) rest s1
      in (p # ps, s2))"

fun calculateEdges ::
  "Kernel \<Rightarrow> StepData \<Rightarrow> FormNote \<Rightarrow> bool \<Rightarrow> nat \<Rightarrow> CurveEdge list \<Rightarrow> State
     \<Rightarrow> EdgeBuffer option Promise list \<times> State" where
  "calculateEdges K stepData formNote outlinesOnly i [] s = ([], s)"
| "calculateEdges K stepData formNote outlinesOnly i (edge # rest) s =
     (let (p, s1) = calculateEdge K s edge stepData formNote outlinesOnly i;
          (ps, s2) = calculateEdges K stepData formNote outlinesOnly (Suc i) rest s1
      in (p # ps, s2))"

definition ParallelMeshCreator_create :: "Kernel \<Rightarrow> State MeshCreator" where
  "ParallelMeshCreator_create K s obj stepData formNote outlinesOnly =
     (if IsA obj \<noteq> Solid then BasicMeshCreator_create K s obj stepData formNote outlinesOnly
      else
        let s1 = emit EnterParallelRegion s;
            (facePromises, s2) = calculateFaces K stepData formNote 0 (GetFaces obj) s1;
            (edgePromises, s3) =
               calculateEdges K stepData formNote outlinesOnly 0 (Item_GetEdges obj) s2
        in case Promise_all (now s) facePromises of
             (t1, Inl e) \<Rightarrow> ((t1, Inl e), s3)
           | (t1, Inr faceResult) \<Rightarrow>
               (case Promise_all t1 edgePromises of
                  (t2, Inl e) \<Rightarrow> ((t2, Inl e), s3)
                | (t2, Inr edgeResult_) \<Rightarrow>
                    ((t2, Inr \<lparr>faces = faceResult, edges = defined_edges edgeResult_\<rparr>),
                     enqueue [(t2, Mutex_ExitParallelRegion)] s3)))"

subsection \<open>FaceCacheMeshCreator\<close>

text \<open>
  \<^verbatim>\<open>cacheFace\<close> is called without \<^verbatim>\<open>await\<close>: it runs up to its first
  \<^verbatim>\<open>await\<close> and goes on when the face and then all the edges have fulfilled;
  a rejection ends it before \<^verbatim>\<open>faceCache.set\<close>. Its only caller passes an
  \<^verbatim>\<open>id\<close> (here \<open>id'\<close>) that is defined whenever \<^verbatim>\<open>isCacheable\<close> holds.
\<close>

definition cacheFace ::
  "State \<Rightarrow> int option \<Rightarrow> bool \<Rightarrow> MeshBuffer Promise \<Rightarrow> EdgeBuffer option Promise list
     \<Rightarrow> State" where
  "cacheFace s id' isCacheable facePromise edgePromises =
     (if isCacheable then
        (case snd facePromise of
           Inl e \<Rightarrow> s
         | Inr face \<Rightarrow>
             (case Promise_all (reaction_time (now s) facePromise) edgePromises of
                (t2, Inl e) \<Rightarrow> s
              | (t2, Inr edges_) \<Rightarrow>
                  (case id' of
                     None \<Rightarrow> s
                   | Some k \<Rightarrow> enqueue [(t2, FaceCache_set k (face, defined_edges edges_))] s)))
      else s)"

text \<open>The local variables of \<^verbatim>\<open>FaceCacheMeshCreator.create\<close> that its loop updates.\<close>

record FaceLoop =
  lp_facePromises :: "MeshBuffer Promise list"
  lp_edgePromises :: "EdgeBuffer option Promise list"
  lp_cachedFaces :: "MeshBuffer list"
  lp_cachedEdges :: "EdgeBuffer list"
  lp_seenEdges :: "CurveEdge set"
  lp_j :: nat

definition FaceLoop_init :: FaceLoop where
  "FaceLoop_init =
     \<lparr>lp_facePromises = [], lp_edgePromises = [], lp_cachedFaces = [], lp_cachedEdges = [],
      lp_seenEdges = {}, lp_j = 0\<rparr>"

text \<open>
  The lookup \<^verbatim>\<open>isCacheable ? faceCache.get(id) : undefined\<close>.
\<close>

definition existingGrid ::
  "State \<Rightarrow> Face \<Rightarrow> (MeshBuffer \<times> EdgeBuffer list) option" where
  "existingGrid s face =
     (let id' = history s (Face_Id face);
          isCacheable = (\<not> GetOwnChanged face \<and> id' \<noteq> None)
      in if isCacheable then (case id' of None \<Rightarrow> None | Some k \<Rightarrow> faceCache s k) else None)"

text \<open>
  The body of the loop over \<^verbatim>\<open>faces.entries()\<close>. The test
  \<^verbatim>\<open>isCacheable && existingGrid !== undefined\<close> is the first case below, since
  \<^verbatim>\<open>existingGrid\<close> is undefined when \<^verbatim>\<open>isCacheable\<close> is false. Nothing is
  ever added to \<^verbatim>\<open>seenEdges\<close>.
\<close>

definition FaceCache_face ::
  "Kernel \<Rightarrow> StepData \<Rightarrow> FormNote \<Rightarrow> bool \<Rightarrow> nat \<Rightarrow> Face \<Rightarrow> FaceLoop \<times> State
     \<Rightarrow> FaceLoop \<times> State" where
  "FaceCache_face K stepData formNote outlinesOnly i face ls =
     (let (l, s) = ls;
          id' = history s (Face_Id face);
          isCacheable = (\<not> GetOwnChanged face \<and> id' \<noteq> None)
      in case existingGrid s face of
           Some (face', edges') \<Rightarrow>
             (l\<lparr>lp_cachedFaces := lp_cachedFaces l @ [face'],
                lp_cachedEdges := lp_cachedEdges l @ edges'\<rparr>, s)
         | None \<Rightarrow>
             (let (facePromise, s1) = calculateFace K s face stepData formNote i;
                  edges = filter (\<lambda>e. e \<notin> lp_seenEdges l) (Face_GetEdges face);
                  (faceEdgePromises, s2) =
                     calculateEdges K stepData formNote outlinesOnly (lp_j l) edges s1;
                  s3 = cacheFace s2 id' isCacheable facePromise faceEdgePromises
              in (l\<lparr>lp_facePromises := lp_facePromises l @ [facePromise],
                    lp_edgePromises := lp_edgePromises l @ faceEdgePromises,
                    lp_j := lp_j l + length edges\<rparr>, s3)))"

fun FaceCache_faces ::
  "Kernel \<Rightarrow> StepData \<Rightarrow> FormNote \<Rightarrow> bool \<Rightarrow> nat \<Rightarrow> Face list \<Rightarrow> FaceLoop \<times> State
     \<Rightarrow> FaceLoop \<times> State" where
  "FaceCache_faces K stepData formNote outlinesOnly i [] ls = ls"
| "FaceCache_faces K stepData formNote outlinesOnly i (face # rest) ls =
     FaceCache_faces K stepData formNote outlinesOnly (Suc i) rest
       (FaceCache_face K stepData formNote outlinesOnly i face ls)"

definition FaceCacheMeshCreator_create :: "Kernel \<Rightarrow> State MeshCreator" where
  "FaceCacheMeshCreator_create K s obj stepData formNote outlinesOnly =
     (if IsA obj \<noteq> Solid then BasicMeshCreator_create K s obj stepData formNote outlinesOnly
      else
        let s1 = emit EnterParallelRegion s;
            (l, s2) =
               FaceCache_faces K stepData formNote outlinesOnly 0 (GetFaces obj)
                 (FaceLoop_init, s1)
        in case Promise_all (now s) (lp_facePromises l) of
             (t1, Inl e) \<Rightarrow> ((t1, Inl e), s2)
           | (t1, Inr faceResult) \<Rightarrow>
               (let allFaces = lp_cachedFaces l @ faceResult
                in case Promise_all t1 (lp_edgePromises l) of
                     (t2, Inl e) \<Rightarrow> ((t2, Inl e), s2)
                   | (t2, Inr edges_) \<Rightarrow>
                       (let allEdges = lp_cachedEdges l @ defined_edges edges_
                        in ((t2, Inr \<lparr>faces = allFaces, edges = allEdges\<rparr>),
                            enqueue [(t2, Mutex_ExitParallelRegion)] s2))))"

subsection \<open>ObjectCacheMeshCreator\<close>

type_synonym FormAndPrecisionKey = real

definition formAndPrecisionCacheKey :: "StepData \<Rightarrow> FormNote \<Rightarrow> FormAndPrecisionKey" where
  "formAndPrecisionCacheKey stepData formNote = GetSag stepData"

type_synonym ObjectCache = "FormAndPrecisionKey \<rightharpoonup> (int \<rightharpoonup> MeshLike Promise)"

text \<open>
  Modelled from the spec: the class \<^verbatim>\<open>Delay\<close> of \<^verbatim>\<open>util/SequentialExecutor\<close> is
  not among the sources. Its promise is the placeholder of the table, a future that is
  not yet settled and resolves to the final result. \<open>Delay_promise result\<close> is that
  promise once \<^verbatim>\<open>delay.resolve(result)\<close> has run: resolved with the promise
  \<^verbatim>\<open>result\<close>, it settles when and as \<^verbatim>\<open>result\<close> does.
\<close>

definition Delay_promise :: "'a Promise \<Rightarrow> 'a Promise" where
  "Delay_promise result = result"

text \<open>
  The state of an \<^verbatim>\<open>ObjectCacheMeshCreator\<close> is its table and the state of the
  creator it wraps, which has no access to the table. The function has no
  \<^verbatim>\<open>await\<close>: it runs to its end when it is called, so that the placeholder it
  stores with \<^verbatim>\<open>level.set(id, delay.promise)\<close> is resolved before any other call
  can read the table. The keys of the outer \<^verbatim>\<open>Map\<close> are numbers, here reals.
\<close>

definition ObjectCacheMeshCreator_create ::
  "'u MeshCreator \<Rightarrow> (ObjectCache \<times> 'u) MeshCreator" where
  "ObjectCacheMeshCreator_create underlying cu obj stepData formNote outlinesOnly =
     (let (objectCache, u) = cu;
          id' = Item_Id obj;
          key = formAndPrecisionCacheKey stepData formNote;
          (level, objectCache1) =
             (case objectCache key of
                None \<Rightarrow> (Map.empty, objectCache(key \<mapsto> Map.empty))
              | Some level \<Rightarrow> (level, objectCache))
      in case level id' of
           Some memoized \<Rightarrow> (memoized, (objectCache1, u))
         | None \<Rightarrow>
             (let (result, u1) = underlying u obj stepData formNote outlinesOnly
              in (result, (objectCache1(key \<mapsto> level(id' \<mapsto> Delay_promise result)), u1))))"

text \<open>A promise that settles rejected.\<close>

definition rejected :: "'a Promise \<Rightarrow> bool" where
  "rejected p = isl (snd p)"

text \<open>The entry of the two-level table for a precision key and an object.\<close>

definition objectCache_lookup ::
  "ObjectCache \<Rightarrow> FormAndPrecisionKey \<Rightarrow> int \<Rightarrow> MeshLike Promise option" where
  "objectCache_lookup c key id' = (case c key of None \<Rightarrow> None | Some level \<Rightarrow> level id')"

subsection \<open>Sequences of calls on the object cache\<close>

text \<open>
  The wrapped creator, instrumented: beside its own state it keeps the list of the
  builds it was asked for, and appends the object id and the precision key of every
  call it receives. An \<^verbatim>\<open>ObjectCacheMeshCreator\<close> that wraps it shows which of its
  calls reached the wrapped creator.
\<close>

definition recording ::
  "'u MeshCreator \<Rightarrow> ((int \<times> FormAndPrecisionKey) list \<times> 'u) MeshCreator" where
  "recording underlying bu obj stepData formNote outlinesOnly =
     (let (builds, u) = bu;
          (result, u1) = underlying u obj stepData formNote outlinesOnly
      in (result, (builds @ [(Item_Id obj, formAndPrecisionCacheKey stepData formNote)], u1)))"

text \<open>
  A \<^verbatim>\<open>create\<close> call with its arguments, and what happens to the state of the
  wrapped creator before the call is made (time passes, tasks settle, other parts of
  the editor run). The table is private to the \<^verbatim>\<open>ObjectCacheMeshCreator\<close>: nothing
  but its own \<^verbatim>\<open>create\<close> touches it.
\<close>

record 'u Call =
  elapse :: "'u \<Rightarrow> 'u"
  call_obj :: Item
  call_stepData :: StepData
  call_formNote :: FormNote
  call_outlinesOnly :: bool

definition Call_pair :: "'u Call \<Rightarrow> int \<times> FormAndPrecisionKey" where
  "Call_pair call =
     (Item_Id (call_obj call), formAndPrecisionCacheKey (call_stepData call) (call_formNote call))"

text \<open>
  A sequence of \<^verbatim>\<open>create\<close> calls on one \<^verbatim>\<open>ObjectCacheMeshCreator\<close>, with the
  promises they return.
\<close>

fun ObjectCache_calls ::
  "'u MeshCreator \<Rightarrow> ObjectCache \<times> (int \<times> FormAndPrecisionKey) list \<times> 'u \<Rightarrow> 'u Call list
     \<Rightarrow> MeshLike Promise list \<times> ObjectCache \<times> (int \<times> FormAndPrecisionKey) list \<times> 'u" where
  "ObjectCache_calls underlying cbu [] = ([], cbu)"
| "ObjectCache_calls underlying cbu (call # rest) =
     (let (c, builds, u) = cbu;
          (r, cbu1) =
             ObjectCacheMeshCreator_create (recording underlying) (c, builds, elapse call u)
               (call_obj call) (call_stepData call) (call_formNote call) (call_outlinesOnly call);
          (rs, cbu2) = ObjectCache_calls underlying cbu1 rest
      in (r # rs, cbu2))"

subsection \<open>Kernels and solids to run the creators on\<close>

text \<open>
  A kernel that fulfils every call on the next tick; the positions of a grid are
  the sag it was computed with, every edge has one outline.
\<close>

definition plain_kernel :: Kernel where
  "plain_kernel =
     \<lparr>CalculateGrid_async = (\<lambda>n face stepData formNote.
         (0, Inr \<lparr>index = [0, 1, 2], position = [GetSag stepData], normal = []\<rparr>)),
      CalculateMesh_async = (\<lambda>n edge stepData formNote. (0, Inr 0)),
      CreateMesh_async = (\<lambda>n obj stepData formNote. (0, Inr 0)),
      Mesh_GetEdges = (\<lambda>mesh outlinesOnly. [\<lparr>eb_position = [], eb_model = 0, eb_i = 0\<rparr>]),
      Mesh_GetBuffers = (\<lambda>mesh. [])\<rparr>"

text \<open>The same kernel, except that every grid computation rejects.\<close>

definition failing_kernel :: Kernel where
  "failing_kernel =
     plain_kernel\<lparr>CalculateGrid_async := (\<lambda>n face stepData formNote. (0, Inl (KernelError 1)))\<rparr>"

text \<open>A face that reports no change, and the same face after an edit.\<close>

definition unchanged_face :: "int \<Rightarrow> CurveEdge list \<Rightarrow> Face" where
  "unchanged_face k es =
     \<lparr>Face_Id = k, GetOwnChanged = False, GetNameHash = k, GetStyle = 0, Face_GetEdges = es\<rparr>"

definition changed_face :: "int \<Rightarrow> CurveEdge list \<Rightarrow> Face" where
  "changed_face k es = (unchanged_face k es)\<lparr>GetOwnChanged := True\<rparr>"

definition one_face :: Item where
  "one_face = \<lparr>IsA = Solid, Item_Id = 1, GetFaces = [unchanged_face 10 [0]], Item_GetEdges = [0]\<rparr>"

text \<open>
  Two faces that share the edge 1, and the solid an edit of the first face makes
  of them.
\<close>

definition two_faces :: Item where
  "two_faces =
     \<lparr>IsA = Solid, Item_Id = 2,
      GetFaces = [unchanged_face 10 [0, 1], unchanged_face 11 [1, 2]],
      Item_GetEdges = [0, 1, 2]\<rparr>"

definition two_faces_edited :: Item where
  "two_faces_edited =
     \<lparr>IsA = Solid, Item_Id = 3,
      GetFaces = [changed_face 10 [0, 1], unchanged_face 11 [1, 2]],
      Item_GetEdges = [0, 1, 2]\<rparr>"

text \<open>
  A cube: six faces, twelve edges, every edge on two faces.
\<close>

definition cube :: Item where
  "cube =
     \<lparr>IsA = Solid, Item_Id = 4,
      GetFaces =
        [unchanged_face 20 [0, 1, 2, 3], unchanged_face 21 [4, 5, 6, 7],
         unchanged_face 22 [0, 4, 8, 9], unchanged_face 23 [1, 5, 9, 10],
         unchanged_face 24 [2, 6, 10, 11], unchanged_face 25 [3, 7, 11, 8]],
      Item_GetEdges = [0, 1, 2, 3, 4, 5, 6, 7, 8, 9, 10, 11]\<rparr>"

text \<open>
  The state of a \<^verbatim>\<open>FaceCacheMeshCreator\<close> that has just been constructed,
  without and with a lineage for the faces 10 and 11.
\<close>

definition fresh :: State where
  "fresh = \<lparr>now = 0, events = [], queue = [], faceCache = Map.empty, history = Map.empty\<rparr>"

definition tracked :: State where
  "tracked = fresh\<lparr>history := [10 \<mapsto> 100, 11 \<mapsto> 101]\<rparr>"

definition sag1 :: StepData where
  "sag1 = \<lparr>GetSag = 1 / 100\<rparr>"

definition sag2 :: StepData where
  "sag2 = \<lparr>GetSag = 2 / 100\<rparr>"

definition plain_form :: FormNote where
  "plain_form = \<lparr>Quad = False, Fair = False\<rparr>"

text \<open>
  The creator a caching session installs:
  \<^verbatim>\<open>new ObjectCacheMeshCreator(new FaceCacheMeshCreator(this.fallback, this.copier))\<close>.
\<close>

definition session :: "Kernel \<Rightarrow> (ObjectCache \<times> State) MeshCreator" where
  "session K = ObjectCacheMeshCreator_create (FaceCacheMeshCreator_create K)"

subsection \<open>Names for what a call does\<close>

text \<open>
  The promises \<^verbatim>\<open>facePromises\<close> and \<^verbatim>\<open>edgePromises\<close> of a
  \<^verbatim>\<open>ParallelMeshCreator.create\<close> call on a solid, and the local variables of a
  \<^verbatim>\<open>FaceCacheMeshCreator.create\<close> call on a solid when its loop has ended.
\<close>

definition Parallel_facePromises ::
  "Kernel \<Rightarrow> State \<Rightarrow> Item \<Rightarrow> StepData \<Rightarrow> FormNote \<Rightarrow> MeshBuffer Promise list" where
  "Parallel_facePromises K s obj stepData formNote =
     fst (calculateFaces K stepData formNote 0 (GetFaces obj) (emit EnterParallelRegion s))"

definition Parallel_edgePromises ::
  "Kernel \<Rightarrow> State \<Rightarrow> Item \<Rightarrow> StepData \<Rightarrow> FormNote \<Rightarrow> bool \<Rightarrow> EdgeBuffer option Promise list" where
  "Parallel_edgePromises K s obj stepData formNote outlinesOnly =
     fst (calculateEdges K stepData formNote outlinesOnly 0 (Item_GetEdges obj)
       (snd (calculateFaces K stepData formNote 0 (GetFaces obj) (emit EnterParallelRegion s))))"

definition FaceCache_loop ::
  "Kernel \<Rightarrow> State \<Rightarrow> Item \<Rightarrow> StepData \<Rightarrow> FormNote \<Rightarrow> bool \<Rightarrow> FaceLoop" where
  "FaceCache_loop K s obj stepData formNote outlinesOnly =
     fst (FaceCache_faces K stepData formNote outlinesOnly 0 (GetFaces obj)
       (FaceLoop_init, emit EnterParallelRegion s))"

text \<open>
  A face is a cache hit in a state when the lookup of the loop finds an entry.
\<close>

definition cache_hit :: "State \<Rightarrow> Face \<Rightarrow> bool" where
  "cache_hit s face = (existingGrid s face \<noteq> None)"

text \<open>
  A buffer is the result for a face: the buffer of the entry when the face is a
  cache hit, and a buffer computed from that face otherwise.
\<close>

definition result_of_face :: "State \<Rightarrow> Face \<Rightarrow> MeshBuffer \<Rightarrow> bool" where
  "result_of_face s face b =
     (case existingGrid s face of Some (b', es) \<Rightarrow> b = b' | None \<Rightarrow> mb_model b = face)"

text \<open>The table a list of continuations leaves, in the order they run.\<close>

fun table_after :: "(int \<rightharpoonup> MeshBuffer \<times> EdgeBuffer list) \<Rightarrow> Effect list
    \<Rightarrow> (int \<rightharpoonup> MeshBuffer \<times> EdgeBuffer list)" where
  "table_after m [] = m"
| "table_after m (FaceCache_set k entry # effs) = table_after (m(k \<mapsto> entry)) effs"
| "table_after m (Mutex_ExitParallelRegion # effs) = table_after m effs"

text \<open>The faces and edges a promise fulfils with; none when it rejects.\<close>

definition promised_faces :: "MeshLike Promise \<Rightarrow> MeshBuffer list" where
  "promised_faces p = (case snd p of Inl e \<Rightarrow> [] | Inr m \<Rightarrow> faces m)"

definition promised_edges :: "MeshLike Promise \<Rightarrow> EdgeBuffer list" where
  "promised_edges p = (case snd p of Inl e \<Rightarrow> [] | Inr m \<Rightarrow> edges m)"

text \<open>
  The state one tick after a first \<^verbatim>\<open>create\<close> call on the two faces: both
  faces are in the table.
\<close>

definition after_first_call :: State where
  "after_first_call =
     settle_until 1 (snd (FaceCacheMeshCreator_create plain_kernel tracked two_faces sag1 plain_form False))"

text \<open>
  A kernel whose grid computation rejects as long as fewer than two events have
  been logged, and fulfils afterwards.
\<close>

definition flaky_kernel :: Kernel where
  "flaky_kernel =
     plain_kernel\<lparr>CalculateGrid_async := (\<lambda>n face stepData formNote.
        if n < 2 then (0, Inl (KernelError 1))
        else (0, Inr \<lparr>index = [0, 1, 2], position = [GetSag stepData], normal = []\<rparr>))\<rparr>"

text \<open>
  A session: a call on the one-face solid at the first sag, and, a tick later, a
  call on the same solid at the second sag.
\<close>

definition first_call :: "MeshLike Promise \<times> ObjectCache \<times> State" where
  "first_call = session plain_kernel (Map.empty, tracked) one_face sag1 plain_form False"

definition second_call :: "MeshLike Promise \<times> ObjectCache \<times> State" where
  "second_call =
     session plain_kernel (fst (snd first_call), settle_until 1 (snd (snd first_call)))
       one_face sag2 plain_form False"

text \<open>
  A session on the flaky kernel: a call that rejects, and the same call again five
  ticks later.
\<close>

definition failed_call :: "MeshLike Promise \<times> ObjectCache \<times> State" where
  "failed_call = session flaky_kernel (Map.empty, tracked) one_face sag1 plain_form False"

definition retry_call :: "MeshLike Promise \<times> ObjectCache \<times> State" where
  "retry_call =
     session flaky_kernel (fst (snd failed_call), settle_until 5 (snd (snd failed_call)))
       one_face sag1 plain_form False"

text \<open>
  After the first call on the two faces, the first face is edited; the call on the
  edited solid.
\<close>

definition edited_call :: "MeshLike Promise \<times> State" where
  "edited_call =
     FaceCacheMeshCreator_create plain_kernel after_first_call two_faces_edited sag2 plain_form False"

text \<open>
  The cube in a state that knows the lineage of its faces, and a call on it.
\<close>

definition tracked_cube :: State where
  "tracked_cube =
     fresh\<lparr>history := [20 \<mapsto> 120, 21 \<mapsto> 121, 22 \<mapsto> 122, 23 \<mapsto> 123, 24 \<mapsto> 124, 25 \<mapsto> 125]\<rparr>"

definition cube_call :: "MeshLike Promise \<times> State" where
  "cube_call = FaceCacheMeshCreator_create plain_kernel tracked_cube cube sag1 plain_form False"

text \<open>
  The events that are edge computations.
\<close>

fun is_CalculateMesh :: "Event \<Rightarrow> bool" where
  "is_CalculateMesh (CalculateMesh e i) = True"
| "is_CalculateMesh ev = False"

text \<open>
  Single rounds of the loop of \<^verbatim>\<open>FaceCacheMeshCreator.create\<close>: for a changed
  face and for a cache hit after the first call, and for a cacheable face that is not in
  the table, on the plain and on the failing kernel.
\<close>

definition changed_round :: "FaceLoop \<times> State" where
  "changed_round =
     FaceCache_face plain_kernel sag2 plain_form False 0 (changed_face 10 [0, 1])
       (FaceLoop_init, after_first_call)"

definition hit_round :: "FaceLoop \<times> State" where
  "hit_round =
     FaceCache_face plain_kernel sag2 plain_form False 1 (unchanged_face 11 [1, 2])
       (FaceLoop_init, after_first_call)"

definition fulfilled_round :: "FaceLoop \<times> State" where
  "fulfilled_round =
     FaceCache_face plain_kernel sag1 plain_form False 0 (unchanged_face 10 [0, 1])
       (FaceLoop_init, tracked)"

definition rejected_round :: "FaceLoop \<times> State" where
  "rejected_round =
     FaceCache_face failing_kernel sag1 plain_form False 0 (unchanged_face 10 [0, 1])
       (FaceLoop_init, tracked)"

text \<open>
  Calls in a session, each after time has passed up to a tick: a call on the one-face
  solid, a call on the two faces under the same precision key, and the first call again.
\<close>

definition call_at :: "nat \<Rightarrow> Item \<Rightarrow> StepData \<Rightarrow> State Call" where
  "call_at t obj stepData =
     \<lparr>elapse = settle_until t, call_obj = obj, call_stepData = stepData,
      call_formNote = plain_form, call_outlinesOnly = False\<rparr>"

definition three_calls :: "State Call list" where
  "three_calls = [call_at 0 one_face sag1, call_at 1 two_faces sag1, call_at 2 one_face sag1]"

definition three_calls_run ::
  "MeshLike Promise list \<times> ObjectCache \<times> (int \<times> FormAndPrecisionKey) list \<times> State" where
  "three_calls_run =
     ObjectCache_calls (FaceCacheMeshCreator_create plain_kernel) (Map.empty, [], tracked) three_calls"

text \<open>
  After the call that rejected on the flaky kernel: a call on another object under the
  same precision key, and the rejected call again.
\<close>

definition later_calls :: "State Call list" where
  "later_calls = [call_at 5 two_faces sag1, call_at 6 one_face sag1]"

definition later_calls_run ::
  "MeshLike Promise list \<times> ObjectCache \<times> (int \<times> FormAndPrecisionKey) list \<times> State" where
  "later_calls_run =
     ObjectCache_calls (FaceCacheMeshCreator_create flaky_kernel)
       (fst (snd failed_call), [], snd (snd failed_call)) later_calls"

text \<open>
  A session: a call on the two faces at the first sag, and, a tick later, a call on
  the same solid at the second sag.
\<close>

definition coarse_call :: "MeshLike Promise \<times> ObjectCache \<times> State" where
  "coarse_call = session plain_kernel (Map.empty, tracked) two_faces sag1 plain_form False"

definition fine_call :: "MeshLike Promise \<times> ObjectCache \<times> State" where
  "fine_call =
     session plain_kernel (fst (snd coarse_call), settle_until 1 (snd (snd coarse_call)))
       two_faces sag2 plain_form False"

section \<open>Properties\<close>

subsection \<open>Unfolding a run\<close>

lemmas run_defs = session_def ObjectCacheMeshCreator_create_def FaceCacheMeshCreator_create_def
  ParallelMeshCreator_create_def BasicMeshCreator_create_def
  FaceCache_face_def existingGrid_def calculateFace_def calculateEdge_def cacheFace_def
  emit_def enqueue_def settle_until_def Promise_all_def reaction_time_def FaceLoop_init_def
  formAndPrecisionCacheKey_def objectCache_lookup_def Delay_promise_def rejected_def promised_faces_def promised_edges_def
  plain_kernel_def failing_kernel_def unchanged_face_def changed_face_def one_face_def two_faces_def
  two_faces_edited_def cube_def fresh_def tracked_def sag1_def sag2_def plain_form_def
  cache_hit_def result_of_face_def
  Let_def

lemmas call_defs = flaky_kernel_def first_call_def second_call_def failed_call_def retry_call_def
  edited_call_def


lemmas calls_defs = call_at_def three_calls_def three_calls_run_def later_calls_def later_calls_run_def
  coarse_call_def fine_call_def recording_def Call_pair_def

subsection \<open>Promise.all\<close>

lemma first_rejection_None: "first_rejection t ps = None \<longleftrightarrow> \<not> list_ex rejected ps"
  by (induction ps) (auto simp: rejected_def split: sum.splits option.splits)


lemma fulfilled_values_map:
  "\<not> list_ex rejected ps \<Longrightarrow> map snd ps = map Inr (fulfilled_values ps)"
  by (induction ps) (auto simp: rejected_def split: sum.splits)

lemma last_reaction_ge: "t \<le> last_reaction t ps"
  by (induction ps) auto

lemma last_reaction_ge_mem: "p \<in> set ps \<Longrightarrow> fst p \<le> last_reaction t ps"
  by (induction ps) (auto simp: reaction_time_def)


lemma Promise_all_Inr:
  "Promise_all t ps = (u, Inr vs) \<Longrightarrow>
     \<not> list_ex rejected ps \<and> map snd ps = map Inr vs \<and> t \<le> u \<and> (\<forall>p \<in> set ps. fst p \<le> u)"
proof -
  assume a: "Promise_all t ps = (u, Inr vs)"
  then have n: "first_rejection t ps = None"
    by (auto simp: Promise_all_def split: option.splits)
  with a have u: "u = last_reaction t ps" and vs: "vs = fulfilled_values ps"
    by (auto simp: Promise_all_def)
  from n have r: "\<not> list_ex rejected ps" by (simp add: first_rejection_None)
  show ?thesis
    using r u vs fulfilled_values_map[OF r] last_reaction_ge[of t ps] last_reaction_ge_mem[of _ ps t]
    by auto
qed

lemma Promise_all_rejected:
  "rejected (Promise_all t ps) \<longleftrightarrow> list_ex rejected ps"
proof (cases "first_rejection t ps")
  case None
  then show ?thesis
    using first_rejection_None[of t ps] by (simp add: Promise_all_def rejected_def)
next
  case (Some ue)
  then show ?thesis
    using first_rejection_None[of t ps] by (cases ue) (simp add: Promise_all_def rejected_def)
qed


subsection \<open>The object cache\<close>

lemma ObjectCache_create_hit:
  "objectCache_lookup c (formAndPrecisionCacheKey stepData formNote) (Item_Id obj) = Some memoized \<Longrightarrow>
   ObjectCacheMeshCreator_create underlying (c, u) obj stepData formNote outlinesOnly =
     (memoized, (c, u))"
  by (auto simp: ObjectCacheMeshCreator_create_def objectCache_lookup_def split: option.splits)

lemma ObjectCache_create_miss:
  "objectCache_lookup c (formAndPrecisionCacheKey stepData formNote) (Item_Id obj) = None \<Longrightarrow>
   ObjectCacheMeshCreator_create underlying (c, u) obj stepData formNote outlinesOnly =
     (fst (underlying u obj stepData formNote outlinesOnly),
      (c(formAndPrecisionCacheKey stepData formNote \<mapsto>
           (case c (formAndPrecisionCacheKey stepData formNote) of
              None \<Rightarrow> Map.empty | Some level \<Rightarrow> level)
             (Item_Id obj \<mapsto> fst (underlying u obj stepData formNote outlinesOnly))),
       snd (underlying u obj stepData formNote outlinesOnly)))"
  by (auto simp: ObjectCacheMeshCreator_create_def objectCache_lookup_def Delay_promise_def Let_def
      split: option.splits prod.splits)

lemma ObjectCache_create_stores:
  "ObjectCacheMeshCreator_create underlying (c, u) obj stepData formNote outlinesOnly = (r, (c', u')) \<Longrightarrow>
   objectCache_lookup c' (formAndPrecisionCacheKey stepData formNote) (Item_Id obj) = Some r"
  by (cases "objectCache_lookup c (formAndPrecisionCacheKey stepData formNote) (Item_Id obj)")
    (auto simp: ObjectCache_create_hit ObjectCache_create_miss objectCache_lookup_def)

lemma ObjectCache_create_other_key:
  "ObjectCacheMeshCreator_create underlying (c, u) obj stepData formNote outlinesOnly = (r, (c', u')) \<Longrightarrow>
   key \<noteq> formAndPrecisionCacheKey stepData formNote \<Longrightarrow> c' key = c key"
  by (cases "objectCache_lookup c (formAndPrecisionCacheKey stepData formNote) (Item_Id obj)")
    (auto simp: ObjectCache_create_hit ObjectCache_create_miss)

lemma ObjectCache_create_reads_own_key:
  "c (formAndPrecisionCacheKey stepData formNote) = d (formAndPrecisionCacheKey stepData formNote) \<Longrightarrow>
   fst (ObjectCacheMeshCreator_create underlying (c, u) obj stepData formNote outlinesOnly) =
   fst (ObjectCacheMeshCreator_create underlying (d, u) obj stepData formNote outlinesOnly) \<and>
   snd (snd (ObjectCacheMeshCreator_create underlying (c, u) obj stepData formNote outlinesOnly)) =
   snd (snd (ObjectCacheMeshCreator_create underlying (d, u) obj stepData formNote outlinesOnly))"
  by (auto simp: ObjectCacheMeshCreator_create_def Delay_promise_def Let_def
      split: option.splits prod.splits)

lemma ObjectCache_create_again:
  assumes "ObjectCacheMeshCreator_create underlying (c, u) obj stepData formNote outlinesOnly =
             (r, (c', u'))"
    and "Item_Id obj' = Item_Id obj"
    and "formAndPrecisionCacheKey stepData' formNote' = formAndPrecisionCacheKey stepData formNote"
  shows "objectCache_lookup c' (formAndPrecisionCacheKey stepData formNote) (Item_Id obj) = Some r \<and>
         ObjectCacheMeshCreator_create underlying' (c', u'') obj' stepData' formNote' outlinesOnly' =
           (r, (c', u'')) \<and>
         (objectCache_lookup c (formAndPrecisionCacheKey stepData formNote) (Item_Id obj) = None \<longrightarrow>
            (r, u') = underlying u obj stepData formNote outlinesOnly) \<and>
         (objectCache_lookup c (formAndPrecisionCacheKey stepData formNote) (Item_Id obj) = Some m \<longrightarrow>
            (r, (c', u')) = (m, (c, u)))"
proof -
  have stored: "objectCache_lookup c' (formAndPrecisionCacheKey stepData formNote) (Item_Id obj) = Some r"
    using assms(1) by (rule ObjectCache_create_stores)
  then have "objectCache_lookup c' (formAndPrecisionCacheKey stepData' formNote') (Item_Id obj') = Some r"
    using assms(2,3) by simp
  then have again: "ObjectCacheMeshCreator_create underlying' (c', u'') obj' stepData' formNote' outlinesOnly' =
           (r, (c', u''))"
    by (rule ObjectCache_create_hit)
  have miss: "objectCache_lookup c (formAndPrecisionCacheKey stepData formNote) (Item_Id obj) = None \<longrightarrow>
            (r, u') = underlying u obj stepData formNote outlinesOnly"
    using assms(1) by (auto simp: ObjectCache_create_miss)
  have hit: "objectCache_lookup c (formAndPrecisionCacheKey stepData formNote) (Item_Id obj) = Some m \<longrightarrow>
            (r, (c', u')) = (m, (c, u))"
    using assms(1) by (auto simp: ObjectCache_create_hit)
  from stored again miss hit show ?thesis by blast
qed

lemma ObjectCache_create_lookup:
  assumes "ObjectCacheMeshCreator_create underlying (c, u) obj stepData formNote outlinesOnly = (r, (c', u'))"
  shows "objectCache_lookup c' k i =
     (if k = formAndPrecisionCacheKey stepData formNote \<and> i = Item_Id obj then Some r
      else objectCache_lookup c k i)"
proof (cases "objectCache_lookup c (formAndPrecisionCacheKey stepData formNote) (Item_Id obj)")
  case None
  let ?key = "formAndPrecisionCacheKey stepData formNote"
  define L where "L = (case c ?key of None \<Rightarrow> Map.empty | Some level \<Rightarrow> level)"
  have L: "objectCache_lookup c ?key j = L j" for j
    by (simp add: objectCache_lookup_def L_def split: option.splits)
  from assms None have r: "r = fst (underlying u obj stepData formNote outlinesOnly)"
    and c': "c' = c(?key \<mapsto> L(Item_Id obj \<mapsto> r))"
    by (auto simp: ObjectCache_create_miss L_def)
  show ?thesis
  proof (cases "k = ?key")
    case True
    have "objectCache_lookup c' ?key i = (L(Item_Id obj \<mapsto> r)) i"
      by (simp add: c' objectCache_lookup_def)
    then show ?thesis using True L[of i] by simp
  next
    case False
    then show ?thesis by (simp add: c' objectCache_lookup_def)
  qed
next
  case (Some m)
  with assms show ?thesis
    by (auto simp: ObjectCache_create_hit)
qed

lemma recording_create:
  "ObjectCacheMeshCreator_create (recording underlying) (c, builds, u) obj stepData formNote outlinesOnly =
     (case objectCache_lookup c (formAndPrecisionCacheKey stepData formNote) (Item_Id obj) of
        Some memoized \<Rightarrow> (memoized, (c, builds, u))
      | None \<Rightarrow>
          (fst (underlying u obj stepData formNote outlinesOnly),
           (fst (snd (ObjectCacheMeshCreator_create underlying (c, u) obj stepData formNote outlinesOnly)),
            builds @ [(Item_Id obj, formAndPrecisionCacheKey stepData formNote)],
            snd (underlying u obj stepData formNote outlinesOnly))))"
  by (auto simp: ObjectCache_create_hit ObjectCache_create_miss recording_def case_prod_beta
      split: option.splits)

lemma ObjectCache_calls_Cons:
  "ObjectCache_calls underlying (c, builds, u) (call # rest) =
     (fst (ObjectCacheMeshCreator_create (recording underlying) (c, builds, elapse call u)
               (call_obj call) (call_stepData call) (call_formNote call) (call_outlinesOnly call)) #
      fst (ObjectCache_calls underlying
        (snd (ObjectCacheMeshCreator_create (recording underlying) (c, builds, elapse call u)
               (call_obj call) (call_stepData call) (call_formNote call) (call_outlinesOnly call))) rest),
      snd (ObjectCache_calls underlying
        (snd (ObjectCacheMeshCreator_create (recording underlying) (c, builds, elapse call u)
               (call_obj call) (call_stepData call) (call_formNote call) (call_outlinesOnly call))) rest))"
  by (simp add: Let_def case_prod_beta)

lemma ObjectCache_calls_table:
  assumes "ObjectCache_calls underlying (c, builds, u) calls = (rs, (c', builds', u'))"
  shows "(objectCache_lookup c k i = Some r \<longrightarrow> objectCache_lookup c' k i = Some r) \<and>
         list_all2 (\<lambda>r' call. objectCache_lookup c' (snd (Call_pair call)) (fst (Call_pair call)) = Some r')
           rs calls \<and>
         count_list builds' (i, k) =
           count_list builds (i, k) +
             (if objectCache_lookup c k i = None \<and> (i, k) \<in> set (map Call_pair calls) then 1 else 0)"
  using assms
proof (induction calls arbitrary: c builds u rs r k i)
  case Nil
  then show ?case by simp
next
  case (Cons call rest)
  let ?step = "ObjectCacheMeshCreator_create (recording underlying) (c, builds, elapse call u)
               (call_obj call) (call_stepData call) (call_formNote call) (call_outlinesOnly call)"
  obtain r1 c1 b1 u1 where step: "?step = (r1, (c1, b1, u1))"
    by (cases ?step) auto
  define rs1 where "rs1 = fst (ObjectCache_calls underlying (c1, b1, u1) rest)"
  have rs: "rs = r1 # rs1"
    and rest: "ObjectCache_calls underlying (c1, b1, u1) rest = (rs1, (c', builds', u'))"
    using Cons.prems step
    by (auto simp: ObjectCache_calls_Cons rs1_def prod_eq_iff simp del: ObjectCache_calls.simps)
  note look = ObjectCache_create_lookup[OF step]
  have pair: "Call_pair call = (Item_Id (call_obj call),
      formAndPrecisionCacheKey (call_stepData call) (call_formNote call))"
    by (simp add: Call_pair_def)
  have b1: "b1 = (if objectCache_lookup c (snd (Call_pair call)) (fst (Call_pair call)) = None
                  then builds @ [Call_pair call] else builds)"
    using step by (auto simp: recording_create pair split: option.splits)
  note ih = Cons.IH[OF rest]
  have stored: "objectCache_lookup c1 (snd (Call_pair call)) (fst (Call_pair call)) = Some r1"
    by (simp add: look pair)
  have A: "objectCache_lookup c k i = Some r \<longrightarrow> objectCache_lookup c' k i = Some r"
  proof
    assume a: "objectCache_lookup c k i = Some r"
    have "objectCache_lookup c1 k i = Some r"
    proof (cases "k = snd (Call_pair call) \<and> i = fst (Call_pair call)")
      case True
      with a have "objectCache_lookup c (formAndPrecisionCacheKey (call_stepData call) (call_formNote call))
          (Item_Id (call_obj call)) = Some r" by (simp add: pair)
      with step have "r1 = r" by (simp add: recording_create)
      with True stored show ?thesis by simp
    next
      case False
      with a show ?thesis by (auto simp: look pair)
    qed
    with ih[of k i r] show "objectCache_lookup c' k i = Some r" by blast
  qed
  have B: "list_all2 (\<lambda>r' call. objectCache_lookup c' (snd (Call_pair call)) (fst (Call_pair call)) = Some r')
           rs (call # rest)"
    using ih[where k = "snd (Call_pair call)" and i = "fst (Call_pair call)" and r = r1] stored rs
    by simp
  have C: "count_list builds' (i, k) =
           count_list builds (i, k) +
             (if objectCache_lookup c k i = None \<and> (i, k) \<in> set (map Call_pair (call # rest)) then 1 else 0)"
  proof (cases "(i, k) = Call_pair call")
    case True
    then have ik: "k = snd (Call_pair call)" "i = fst (Call_pair call)" by (metis snd_conv, metis fst_conv)
    have "count_list builds' (i, k) = count_list b1 (i, k)"
      using ih[of k i r] stored ik by simp
    also have "\<dots> = count_list builds (i, k) + (if objectCache_lookup c k i = None then 1 else 0)"
      using True by (simp add: b1 ik)
    finally show ?thesis using True by simp
  next
    case False
    then have l: "objectCache_lookup c1 k i = objectCache_lookup c k i"
      by (auto simp: look pair)
    have "count_list b1 (i, k) = count_list builds (i, k)"
      using False by (auto simp: b1)
    with ih[of k i r] l False show ?thesis by simp
  qed
  from A B C show ?case by blast
qed



text \<open>
  C7 (as amended). Two \<^verbatim>\<open>create\<close> calls on one object at distinct sags, the
  second after any lapse of time. The precision keys differ. Each call changes the table
  at its own key and object and nowhere else; the final table holds the promise of the
  first call under the first key and that of the second under the second; the second
  call returns what it would have returned had the first never been made. A call that
  finds no entry for the object under its own key invokes the wrapped creator and
  returns its promise. What the wrapped creator then computes is not part of the
  statement.
\<close>

theorem ObjectCache_precision_isolation:
  assumes sags: "GetSag stepData2 \<noteq> GetSag stepData1"
    and call1: "ObjectCacheMeshCreator_create underlying (c, u) obj stepData1 formNote1 outlinesOnly1 =
             (r1, (c1, u1))"
    and call2: "ObjectCacheMeshCreator_create underlying (c1, v) obj stepData2 formNote2 outlinesOnly2 =
             (r2, (c2, u2))"
  shows "formAndPrecisionCacheKey stepData2 formNote2 \<noteq> formAndPrecisionCacheKey stepData1 formNote1 \<and>
         c1 (formAndPrecisionCacheKey stepData2 formNote2) = c (formAndPrecisionCacheKey stepData2 formNote2) \<and>
         c2 (formAndPrecisionCacheKey stepData1 formNote1) = c1 (formAndPrecisionCacheKey stepData1 formNote1) \<and>
         objectCache_lookup c2 (formAndPrecisionCacheKey stepData1 formNote1) (Item_Id obj) = Some r1 \<and>
         objectCache_lookup c2 (formAndPrecisionCacheKey stepData2 formNote2) (Item_Id obj) = Some r2 \<and>
         fst (ObjectCacheMeshCreator_create underlying (c, v) obj stepData2 formNote2 outlinesOnly2) = r2 \<and>
         snd (snd (ObjectCacheMeshCreator_create underlying (c, v) obj stepData2 formNote2 outlinesOnly2)) = u2 \<and>
         (if objectCache_lookup c (formAndPrecisionCacheKey stepData1 formNote1) (Item_Id obj) = None
          then (r1, u1) = underlying u obj stepData1 formNote1 outlinesOnly1 else u1 = u) \<and>
         (if objectCache_lookup c (formAndPrecisionCacheKey stepData2 formNote2) (Item_Id obj) = None
          then (r2, u2) = underlying v obj stepData2 formNote2 outlinesOnly2 else u2 = v) \<and>
         (\<forall>k i. objectCache_lookup c1 k i =
            (if k = formAndPrecisionCacheKey stepData1 formNote1 \<and> i = Item_Id obj then Some r1
             else objectCache_lookup c k i)) \<and>
         (\<forall>k i. objectCache_lookup c2 k i =
            (if k = formAndPrecisionCacheKey stepData2 formNote2 \<and> i = Item_Id obj then Some r2
             else objectCache_lookup c1 k i))"
proof -
  let ?k1 = "formAndPrecisionCacheKey stepData1 formNote1"
  let ?k2 = "formAndPrecisionCacheKey stepData2 formNote2"
  have keys: "?k2 \<noteq> ?k1"
    using sags by (simp add: formAndPrecisionCacheKey_def)
  have a: "c1 ?k2 = c ?k2"
    using ObjectCache_create_other_key[OF call1 keys] .
  have b: "c2 ?k1 = c1 ?k1"
    using ObjectCache_create_other_key[OF call2 keys[symmetric]] .
  have s1: "objectCache_lookup c1 ?k1 (Item_Id obj) = Some r1"
    using call1 by (rule ObjectCache_create_stores)
  then have d: "objectCache_lookup c2 ?k1 (Item_Id obj) = Some r1"
    using b by (simp add: objectCache_lookup_def)
  have e: "objectCache_lookup c2 ?k2 (Item_Id obj) = Some r2"
    using call2 by (rule ObjectCache_create_stores)
  have f: "fst (ObjectCacheMeshCreator_create underlying (c, v) obj stepData2 formNote2 outlinesOnly2) = r2 \<and>
         snd (snd (ObjectCacheMeshCreator_create underlying (c, v) obj stepData2 formNote2 outlinesOnly2)) = u2"
    using ObjectCache_create_reads_own_key[where c = c and d = c1 and stepData = stepData2
        and formNote = formNote2 and underlying = underlying and u = v and obj = obj
        and outlinesOnly = outlinesOnly2] a call2
    by simp
  have l2: "objectCache_lookup c1 ?k2 (Item_Id obj) = objectCache_lookup c ?k2 (Item_Id obj)"
    using a by (simp add: objectCache_lookup_def)
  have g: "if objectCache_lookup c ?k1 (Item_Id obj) = None
          then (r1, u1) = underlying u obj stepData1 formNote1 outlinesOnly1 else u1 = u"
    using call1 by (auto simp: ObjectCache_create_miss ObjectCache_create_hit)
  have h: "if objectCache_lookup c ?k2 (Item_Id obj) = None
          then (r2, u2) = underlying v obj stepData2 formNote2 outlinesOnly2 else u2 = v"
    using call2 l2 by (auto simp: ObjectCache_create_miss ObjectCache_create_hit)
  have p1: "\<forall>k i. objectCache_lookup c1 k i =
            (if k = ?k1 \<and> i = Item_Id obj then Some r1 else objectCache_lookup c k i)"
    using ObjectCache_create_lookup[OF call1] by blast
  have p2: "\<forall>k i. objectCache_lookup c2 k i =
            (if k = ?k2 \<and> i = Item_Id obj then Some r2 else objectCache_lookup c1 k i)"
    using ObjectCache_create_lookup[OF call2] by blast
  from keys a b d e f g h p1 p2 show ?thesis by blast
qed

theorem ObjectCache_precision_isolation_witness:
  "GetSag sag2 \<noteq> GetSag sag1 \<and>
   formAndPrecisionCacheKey sag2 plain_form \<noteq> formAndPrecisionCacheKey sag1 plain_form \<and>
   fst (snd second_call) (formAndPrecisionCacheKey sag1 plain_form) =
     fst (snd first_call) (formAndPrecisionCacheKey sag1 plain_form) \<and>
   objectCache_lookup (fst (snd second_call)) (formAndPrecisionCacheKey sag1 plain_form) (Item_Id one_face) =
     Some (fst first_call) \<and>
   objectCache_lookup (fst (snd second_call)) (formAndPrecisionCacheKey sag2 plain_form) (Item_Id one_face) =
     Some (fst second_call) \<and>
   (fst second_call, snd (snd second_call)) =
     FaceCacheMeshCreator_create plain_kernel (settle_until 1 (snd (snd first_call)))
       one_face sag2 plain_form False"
proof -
  have sags: "GetSag sag2 \<noteq> GetSag sag1"
    by (simp add: sag1_def sag2_def)
  have call1: "ObjectCacheMeshCreator_create (FaceCacheMeshCreator_create plain_kernel)
      (Map.empty, tracked) one_face sag1 plain_form False =
        (fst first_call, (fst (snd first_call), snd (snd first_call)))"
    by (simp add: first_call_def session_def)
  have call2: "ObjectCacheMeshCreator_create (FaceCacheMeshCreator_create plain_kernel)
      (fst (snd first_call), settle_until 1 (snd (snd first_call))) one_face sag2 plain_form False =
        (fst second_call, (fst (snd second_call), snd (snd second_call)))"
    by (simp add: second_call_def session_def)
  have none: "objectCache_lookup Map.empty (formAndPrecisionCacheKey sag2 plain_form) (Item_Id one_face) = None"
    by (simp add: objectCache_lookup_def)
  from ObjectCache_precision_isolation[OF sags call1 call2] sags none show ?thesis
    by simp
qed

text \<open>
  C7 as stated fails. In a session the call on the two faces at the second sag finds no
  entry in the object cache and reaches the wrapped creator, but it is no computation of
  its own: it logs no kernel call and returns the faces the first call computed at the
  first sag, where a call at the second sag on a face cache without entries returns
  faces of the second sag.
\<close>

theorem second_precision_reuses_first_faces:
  "GetSag sag2 \<noteq> GetSag sag1 \<and>
   formAndPrecisionCacheKey sag2 plain_form \<noteq> formAndPrecisionCacheKey sag1 plain_form \<and>
   objectCache_lookup (fst (snd coarse_call)) (formAndPrecisionCacheKey sag2 plain_form) (Item_Id two_faces) = None \<and>
   length (filter is_CalculateMesh (events (snd (snd coarse_call)))) = 4 \<and>
   events (snd (snd fine_call)) =
     events (settle_until 1 (snd (snd coarse_call))) @ [EnterParallelRegion] \<and>
   promised_faces (fst fine_call) = promised_faces (fst coarse_call) \<and>
   map mb_position (promised_faces (fst fine_call)) = [[GetSag sag1], [GetSag sag1]] \<and>
   map mb_position (promised_faces (fst (FaceCacheMeshCreator_create plain_kernel tracked two_faces sag2
      plain_form False))) = [[GetSag sag2], [GetSag sag2]]"
  by (simp add: calls_defs call_defs run_defs)

text \<open>
  C3 (as amended). When the promise a \<^verbatim>\<open>create\<close> call returns rejects, the
  table holds it under the object and the precision key, and keeps it through any
  sequence of later calls, on any objects, under any keys and after any lapse of time:
  every call of the sequence for the same object and key returns the rejected promise,
  none of them reaches the wrapped creator, and so does every call after the sequence.
\<close>

theorem ObjectCache_keeps_rejected_entry:
  assumes first: "ObjectCacheMeshCreator_create underlying (c, u) obj stepData formNote outlinesOnly =
             (r, (c1, u1))"
    and rej: "rejected r"
    and run: "ObjectCache_calls underlying' (c1, builds, v) calls = (rs, (c', builds', u'))"
    and same_id: "Item_Id obj' = Item_Id obj"
    and same_key: "formAndPrecisionCacheKey stepData' formNote' = formAndPrecisionCacheKey stepData formNote"
  shows "objectCache_lookup c1 (formAndPrecisionCacheKey stepData formNote) (Item_Id obj) = Some r \<and>
         objectCache_lookup c' (formAndPrecisionCacheKey stepData formNote) (Item_Id obj) = Some r \<and>
         list_all2 (\<lambda>r' call.
             Call_pair call = (Item_Id obj, formAndPrecisionCacheKey stepData formNote) \<longrightarrow> r' = r)
           rs calls \<and>
         count_list builds' (Item_Id obj, formAndPrecisionCacheKey stepData formNote) =
           count_list builds (Item_Id obj, formAndPrecisionCacheKey stepData formNote) \<and>
         ObjectCacheMeshCreator_create underlying'' (c', u'') obj' stepData' formNote' outlinesOnly' =
           (r, (c', u''))"
proof -
  let ?key = "formAndPrecisionCacheKey stepData formNote"
  have stored: "objectCache_lookup c1 ?key (Item_Id obj) = Some r"
    using first by (rule ObjectCache_create_stores)
  note t = ObjectCache_calls_table[OF run, of ?key "Item_Id obj" r]
  from t stored have kept: "objectCache_lookup c' ?key (Item_Id obj) = Some r" by blast
  from t have "list_all2 (\<lambda>r' call.
      objectCache_lookup c' (snd (Call_pair call)) (fst (Call_pair call)) = Some r') rs calls"
    by blast
  then have same: "list_all2 (\<lambda>r' call. Call_pair call = (Item_Id obj, ?key) \<longrightarrow> r' = r) rs calls"
    by (rule list_all2_mono) (use kept in auto)
  from t stored have cnt: "count_list builds' (Item_Id obj, ?key) = count_list builds (Item_Id obj, ?key)"
    by simp
  from kept have "objectCache_lookup c' (formAndPrecisionCacheKey stepData' formNote') (Item_Id obj') = Some r"
    using same_id same_key by simp
  then have again: "ObjectCacheMeshCreator_create underlying'' (c', u'') obj' stepData' formNote' outlinesOnly' =
           (r, (c', u''))"
    by (rule ObjectCache_create_hit)
  from stored kept same cnt again show ?thesis by blast
qed

lemma failed_call_rejected: "fst failed_call = (1, Inl (KernelError 1))"
  by (simp add: call_defs run_defs)

theorem ObjectCache_keeps_rejected_entry_witness:
  "rejected (fst failed_call) \<and>
   map Call_pair later_calls = [(2, 1 / 100), (1, 1 / 100)] \<and>
   fst (snd (snd later_calls_run)) = [(2, 1 / 100)] \<and>
   objectCache_lookup (fst (snd later_calls_run)) (formAndPrecisionCacheKey sag1 plain_form)
     (Item_Id one_face) = Some (fst failed_call) \<and>
   fst later_calls_run ! 1 = fst failed_call \<and>
   count_list (fst (snd (snd later_calls_run))) (Item_Id one_face, formAndPrecisionCacheKey sag1 plain_form) = 0 \<and>
   session flaky_kernel (fst (snd later_calls_run), settle_until 9 (snd (snd (snd later_calls_run))))
       one_face sag1 plain_form False =
     (fst failed_call, (fst (snd later_calls_run), settle_until 9 (snd (snd (snd later_calls_run)))))"
proof -
  have call: "ObjectCacheMeshCreator_create (FaceCacheMeshCreator_create flaky_kernel)
      (Map.empty, tracked) one_face sag1 plain_form False =
        (fst failed_call, (fst (snd failed_call), snd (snd failed_call)))"
    by (simp add: failed_call_def session_def)
  have rej: "rejected (fst failed_call)"
    by (simp add: failed_call_rejected rejected_def)
  have run: "ObjectCache_calls (FaceCacheMeshCreator_create flaky_kernel)
       (fst (snd failed_call), [], snd (snd failed_call)) later_calls =
      (fst later_calls_run, (fst (snd later_calls_run), fst (snd (snd later_calls_run)),
         snd (snd (snd later_calls_run))))"
    by (simp add: later_calls_run_def)
  have pairs: "map Call_pair later_calls = [(2, 1 / 100), (1, 1 / 100)]"
    by (simp add: calls_defs run_defs)
  have builds: "fst (snd (snd later_calls_run)) = [(2, 1 / 100)]"
    by (simp add: calls_defs call_defs run_defs)
  have p1: "Call_pair (later_calls ! 1) = (Item_Id one_face, formAndPrecisionCacheKey sag1 plain_form)"
    by (simp add: calls_defs run_defs)
  have len: "length later_calls = 2" by (simp add: later_calls_def)
  note th = ObjectCache_keeps_rejected_entry[OF call rej run refl refl,
      where underlying'' = "FaceCacheMeshCreator_create flaky_kernel"
        and u'' = "settle_until 9 (snd (snd (snd later_calls_run)))" and outlinesOnly' = False]
  from th have "list_all2 (\<lambda>r' call.
      Call_pair call = (Item_Id one_face, formAndPrecisionCacheKey sag1 plain_form) \<longrightarrow> r' = fst failed_call)
        (fst later_calls_run) later_calls"
    by blast
  then have same: "fst later_calls_run ! 1 = fst failed_call"
    using len p1 by (auto simp: list_all2_conv_all_nth)
  from th have cnt: "count_list (fst (snd (snd later_calls_run)))
      (Item_Id one_face, formAndPrecisionCacheKey sag1 plain_form) = 0"
    by simp
  from th rej pairs builds same cnt show ?thesis
    by (simp add: session_def)
qed

text \<open>
  C3 as stated fails. On the flaky kernel the first call rejects. Five ticks later the
  table still holds the rejected promise, the same call returns it and logs no event,
  although the wrapped creator, had it been invoked, would have fulfilled.
\<close>

theorem ObjectCache_failure_not_evicted:
  "rejected (fst failed_call) \<and>
   objectCache_lookup (fst (snd failed_call)) (formAndPrecisionCacheKey sag1 plain_form) (Item_Id one_face) =
     Some (fst failed_call) \<and>
   fst retry_call = fst failed_call \<and>
   events (snd (snd retry_call)) = events (snd (snd failed_call)) \<and>
   \<not> rejected (fst (FaceCacheMeshCreator_create flaky_kernel (snd (snd retry_call))
          one_face sag1 plain_form False))"
  by (simp add: call_defs run_defs)

subsection \<open>The state after a call, and the loops\<close>

lemma emit_fields [simp]:
  "now (emit ev s) = now s" "queue (emit ev s) = queue s" "faceCache (emit ev s) = faceCache s"
  "history (emit ev s) = history s" "events (emit ev s) = events s @ [ev]"
  by (simp_all add: emit_def)

lemma enqueue_fields [simp]:
  "now (enqueue effs s) = now s" "queue (enqueue effs s) = queue s @ effs"
  "faceCache (enqueue effs s) = faceCache s" "history (enqueue effs s) = history s"
  "events (enqueue effs s) = events s"
  by (simp_all add: enqueue_def)

lemma calculateFace_state [simp]:
  "snd (calculateFace K s face stepData formNote i) = emit (CalculateGrid (Face_Id face) i) s"
  by (simp add: calculateFace_def Let_def split: prod.splits)

lemma calculateFace_model:
  "snd (fst (calculateFace K s face stepData formNote i)) = Inr b \<Longrightarrow> mb_model b = face \<and> mb_i b = i"
  by (auto simp: calculateFace_def Let_def split: prod.splits sum.splits)

lemma calculateEdge_state [simp]:
  "snd (calculateEdge K s edge stepData formNote outlinesOnly i) = emit (CalculateMesh edge i) s"
  by (simp add: calculateEdge_def Let_def split: prod.splits)

lemma calculateFaces_frame [simp]:
  "now (snd (calculateFaces K stepData formNote i fs s)) = now s"
  "queue (snd (calculateFaces K stepData formNote i fs s)) = queue s"
  "faceCache (snd (calculateFaces K stepData formNote i fs s)) = faceCache s"
  "history (snd (calculateFaces K stepData formNote i fs s)) = history s"
  by (induction fs arbitrary: i s; simp add: Let_def case_prod_beta)+

lemma calculateEdges_frame [simp]:
  "now (snd (calculateEdges K stepData formNote outlinesOnly i es s)) = now s"
  "queue (snd (calculateEdges K stepData formNote outlinesOnly i es s)) = queue s"
  "faceCache (snd (calculateEdges K stepData formNote outlinesOnly i es s)) = faceCache s"
  "history (snd (calculateEdges K stepData formNote outlinesOnly i es s)) = history s"
  by (induction es arbitrary: i s; simp add: Let_def case_prod_beta)+

lemma calculateFaces_Cons:
  "calculateFaces K stepData formNote i (face # rest) s =
     (fst (calculateFace K s face stepData formNote i) #
        fst (calculateFaces K stepData formNote (Suc i) rest (emit (CalculateGrid (Face_Id face) i) s)),
      snd (calculateFaces K stepData formNote (Suc i) rest (emit (CalculateGrid (Face_Id face) i) s)))"
  by (simp add: Let_def case_prod_beta)

lemma calculateEdges_Cons:
  "calculateEdges K stepData formNote outlinesOnly i (edge # rest) s =
     (fst (calculateEdge K s edge stepData formNote outlinesOnly i) #
        fst (calculateEdges K stepData formNote outlinesOnly (Suc i) rest (emit (CalculateMesh edge i) s)),
      snd (calculateEdges K stepData formNote outlinesOnly (Suc i) rest (emit (CalculateMesh edge i) s)))"
  by (simp add: Let_def case_prod_beta)

lemma calculateFaces_models:
  "list_all2 (\<lambda>f p. \<forall>b. snd p = Inr b \<longrightarrow> mb_model b = f \<and> mb_i b < i + length fs)
     fs (fst (calculateFaces K stepData formNote i fs s))"
proof (induction fs arbitrary: i s)
  case Nil
  then show ?case by simp
next
  case (Cons f fs)
  have "list_all2 (\<lambda>f p. \<forall>b. snd p = Inr b \<longrightarrow> mb_model b = f \<and> mb_i b < Suc i + length fs)
     fs (fst (calculateFaces K stepData formNote (Suc i) fs (emit (CalculateGrid (Face_Id f) i) s)))"
    by (rule Cons.IH)
  then show ?case
    using calculateFace_model[of K s f stepData formNote i]
    by (simp add: calculateFaces_Cons del: calculateFaces.simps)
qed

lemma calculateEdges_length [simp]:
  "length (fst (calculateEdges K stepData formNote outlinesOnly i es s)) = length es"
  by (induction es arbitrary: i s) (simp_all add: calculateEdges_Cons del: calculateEdges.simps(2))

lemma calculateEdges_events:
  "\<exists>evs. events (snd (calculateEdges K stepData formNote outlinesOnly i es s)) = events s @ evs"
proof (induction es arbitrary: i s)
  case Nil
  then show ?case by simp
next
  case (Cons e es)
  from Cons.IH[of "Suc i" "emit (CalculateMesh e i) s"] show ?case
    by (auto simp: calculateEdges_Cons simp del: calculateEdges.simps)
qed

lemma cacheFace_frame [simp]:
  "now (cacheFace s id' c fp eps) = now s"
  "faceCache (cacheFace s id' c fp eps) = faceCache s"
  "history (cacheFace s id' c fp eps) = history s"
  "events (cacheFace s id' c fp eps) = events s"
  by (simp_all add: cacheFace_def split: sum.splits prod.splits option.splits)

lemma cacheFace_nothing:
  assumes "\<not> c \<or> rejected fp \<or> list_ex rejected eps"
  shows "cacheFace s id' c fp eps = s"
proof (cases "c \<and> \<not> rejected fp")
  case False
  then show ?thesis
    by (cases "snd fp") (auto simp: cacheFace_def rejected_def)
next
  case True
  with assms have rej: "list_ex rejected eps" by simp
  from True obtain b where b: "snd fp = Inr b"
    by (cases "snd fp") (auto simp: rejected_def)
  obtain t2 r2 where p2: "Promise_all (reaction_time (now s) fp) eps = (t2, r2)"
    by (cases "Promise_all (reaction_time (now s) fp) eps")
  from rej Promise_all_rejected[of "reaction_time (now s) fp" eps] p2 obtain e where "r2 = Inl e"
    by (cases r2) (auto simp: rejected_def)
  with p2 b True show ?thesis by (simp add: cacheFace_def)
qed

lemma FaceCache_face_hit:
  "existingGrid s face = Some (b, es) \<Longrightarrow>
   FaceCache_face K stepData formNote outlinesOnly i face (l, s) =
     (l\<lparr>lp_cachedFaces := lp_cachedFaces l @ [b], lp_cachedEdges := lp_cachedEdges l @ es\<rparr>, s)"
  by (simp add: FaceCache_face_def)

lemma FaceCache_face_miss:
  "existingGrid s face = None \<Longrightarrow>
   FaceCache_face K stepData formNote outlinesOnly i face (l, s) =
     (l\<lparr>lp_facePromises := lp_facePromises l @ [fst (calculateFace K s face stepData formNote i)],
        lp_edgePromises := lp_edgePromises l @
          fst (calculateEdges K stepData formNote outlinesOnly (lp_j l)
                 (filter (\<lambda>e. e \<notin> lp_seenEdges l) (Face_GetEdges face))
                 (emit (CalculateGrid (Face_Id face) i) s)),
        lp_j := lp_j l + length (filter (\<lambda>e. e \<notin> lp_seenEdges l) (Face_GetEdges face))\<rparr>,
      cacheFace
        (snd (calculateEdges K stepData formNote outlinesOnly (lp_j l)
                 (filter (\<lambda>e. e \<notin> lp_seenEdges l) (Face_GetEdges face))
                 (emit (CalculateGrid (Face_Id face) i) s)))
        (history s (Face_Id face))
        (\<not> GetOwnChanged face \<and> history s (Face_Id face) \<noteq> None)
        (fst (calculateFace K s face stepData formNote i))
        (fst (calculateEdges K stepData formNote outlinesOnly (lp_j l)
                 (filter (\<lambda>e. e \<notin> lp_seenEdges l) (Face_GetEdges face))
                 (emit (CalculateGrid (Face_Id face) i) s))))"
  by (simp add: FaceCache_face_def Let_def case_prod_beta)

lemma existingGrid_frame:
  "faceCache s' = faceCache s \<Longrightarrow> history s' = history s \<Longrightarrow> existingGrid s' face = existingGrid s face"
  by (auto simp: existingGrid_def Let_def split: option.splits)

lemma existingGrid_uncacheable:
  "GetOwnChanged face \<or> history s (Face_Id face) = None \<Longrightarrow> existingGrid s face = None"
  by (auto simp: existingGrid_def Let_def)

lemma existingGrid_cacheable:
  "\<not> GetOwnChanged face \<Longrightarrow> history s (Face_Id face) = Some k \<Longrightarrow>
   existingGrid s face = faceCache s k"
  by (simp add: existingGrid_def Let_def)

lemma FaceCache_face_uncacheable:
  assumes u: "GetOwnChanged face \<or> history s (Face_Id face) = None"
  shows "FaceCache_face K stepData formNote outlinesOnly i face (l, s) =
     (l\<lparr>lp_facePromises := lp_facePromises l @ [fst (calculateFace K s face stepData formNote i)],
        lp_edgePromises := lp_edgePromises l @
          fst (calculateEdges K stepData formNote outlinesOnly (lp_j l)
                 (filter (\<lambda>e. e \<notin> lp_seenEdges l) (Face_GetEdges face))
                 (emit (CalculateGrid (Face_Id face) i) s)),
        lp_j := lp_j l + length (filter (\<lambda>e. e \<notin> lp_seenEdges l) (Face_GetEdges face))\<rparr>,
      snd (calculateEdges K stepData formNote outlinesOnly (lp_j l)
                 (filter (\<lambda>e. e \<notin> lp_seenEdges l) (Face_GetEdges face))
                 (emit (CalculateGrid (Face_Id face) i) s)))"
proof -
  from u have miss: "existingGrid s face = None" by (rule existingGrid_uncacheable)
  from u have "\<not> (\<not> GetOwnChanged face \<and> history s (Face_Id face) \<noteq> None)" by auto
  then have cf: "\<And>s2 fp eps. cacheFace s2 (history s (Face_Id face))
      (\<not> GetOwnChanged face \<and> history s (Face_Id face) \<noteq> None) fp eps = s2"
    by (intro cacheFace_nothing disjI1)
  show ?thesis unfolding FaceCache_face_miss[OF miss] cf ..
qed

lemma FaceCache_face_frame:
  "now (snd (FaceCache_face K stepData formNote outlinesOnly i face (l, s))) = now s \<and>
   faceCache (snd (FaceCache_face K stepData formNote outlinesOnly i face (l, s))) = faceCache s \<and>
   history (snd (FaceCache_face K stepData formNote outlinesOnly i face (l, s))) = history s \<and>
   lp_seenEdges (fst (FaceCache_face K stepData formNote outlinesOnly i face (l, s))) = lp_seenEdges l"
proof (cases "existingGrid s face")
  case None
  then show ?thesis by (simp add: FaceCache_face_miss)
next
  case (Some g)
  then show ?thesis by (cases g) (simp add: FaceCache_face_hit)
qed

lemma FaceCache_faces_frame:
  "FaceCache_faces K stepData formNote outlinesOnly i fs (l, s) = (l', s') \<Longrightarrow>
   now s' = now s \<and> faceCache s' = faceCache s \<and> history s' = history s \<and>
   lp_seenEdges l' = lp_seenEdges l"
proof (induction fs arbitrary: i l s)
  case Nil
  then show ?case by simp
next
  case (Cons f fs)
  obtain l1 s1 where step: "FaceCache_face K stepData formNote outlinesOnly i f (l, s) = (l1, s1)"
    by (cases "FaceCache_face K stepData formNote outlinesOnly i f (l, s)")
  with Cons.prems have "FaceCache_faces K stepData formNote outlinesOnly (Suc i) fs (l1, s1) = (l', s')"
    by simp
  from Cons.IH[OF this] FaceCache_face_frame[of K stepData formNote outlinesOnly i f l s] step
  show ?case by simp
qed

lemma FaceCache_create_solid:
  "IsA obj = Solid \<Longrightarrow>
   fst (FaceCacheMeshCreator_create K s obj stepData formNote outlinesOnly) =
     (case Promise_all (now s) (lp_facePromises (FaceCache_loop K s obj stepData formNote outlinesOnly)) of
        (t1, Inl e) \<Rightarrow> (t1, Inl e)
      | (t1, Inr faceResult) \<Rightarrow>
          (case Promise_all t1 (lp_edgePromises (FaceCache_loop K s obj stepData formNote outlinesOnly)) of
             (t2, Inl e) \<Rightarrow> (t2, Inl e)
           | (t2, Inr edges_) \<Rightarrow>
               (t2, Inr \<lparr>faces = lp_cachedFaces (FaceCache_loop K s obj stepData formNote outlinesOnly) @ faceResult,
                         edges = lp_cachedEdges (FaceCache_loop K s obj stepData formNote outlinesOnly) @ defined_edges edges_\<rparr>)))"
  by (simp add: FaceCacheMeshCreator_create_def FaceCache_loop_def Let_def case_prod_beta
      split: sum.splits)

lemma Parallel_create_solid:
  "IsA obj = Solid \<Longrightarrow>
   fst (ParallelMeshCreator_create K s obj stepData formNote outlinesOnly) =
     (case Promise_all (now s) (Parallel_facePromises K s obj stepData formNote) of
        (t1, Inl e) \<Rightarrow> (t1, Inl e)
      | (t1, Inr faceResult) \<Rightarrow>
          (case Promise_all t1 (Parallel_edgePromises K s obj stepData formNote outlinesOnly) of
             (t2, Inl e) \<Rightarrow> (t2, Inl e)
           | (t2, Inr edgeResult_) \<Rightarrow>
               (t2, Inr \<lparr>faces = faceResult, edges = defined_edges edgeResult_\<rparr>)))"
  by (simp add: ParallelMeshCreator_create_def Parallel_facePromises_def Parallel_edgePromises_def
      Let_def case_prod_beta split: sum.splits)

subsection \<open>The order of the faces\<close>

lemma list_all2_fulfilled:
  "list_all2 (\<lambda>f p. \<forall>b. snd p = Inr b \<longrightarrow> P f b) fs ps \<Longrightarrow> map snd ps = map Inr vs \<Longrightarrow>
   list_all2 P fs vs"
proof (induction fs ps arbitrary: vs rule: list_all2_induct)
  case Nil
  then show ?case by simp
next
  case (Cons f p fs ps)
  then show ?case by (cases vs) auto
qed

lemma cache_hit_frame:
  "faceCache s' = faceCache s \<Longrightarrow> history s' = history s \<Longrightarrow> cache_hit s' = cache_hit s"
  using existingGrid_frame[of s' s] by (intro ext) (simp add: cache_hit_def)

lemma result_of_face_frame:
  "faceCache s' = faceCache s \<Longrightarrow> history s' = history s \<Longrightarrow> result_of_face s' = result_of_face s"
  using existingGrid_frame[of s' s] by (intro ext) (simp add: result_of_face_def)

lemma FaceCache_faces_results:
  "FaceCache_faces K stepData formNote outlinesOnly i fs (l, s) = (l', s') \<Longrightarrow>
   \<exists>cf fp. lp_cachedFaces l' = lp_cachedFaces l @ cf \<and>
           list_all2 (result_of_face s) (filter (cache_hit s) fs) cf \<and>
           lp_facePromises l' = lp_facePromises l @ fp \<and>
           list_all2 (\<lambda>f p. \<forall>b. snd p = Inr b \<longrightarrow> mb_model b = f)
             (filter (\<lambda>f. \<not> cache_hit s f) fs) fp"
proof (induction fs arbitrary: i l s)
  case Nil
  then show ?case by simp
next
  case (Cons f fs)
  show ?case
  proof (cases "existingGrid s f")
    case None
    let ?p = "fst (calculateFace K s f stepData formNote i)"
    obtain l1 s1 where step: "FaceCache_face K stepData formNote outlinesOnly i f (l, s) = (l1, s1)"
      by (cases "FaceCache_face K stepData formNote outlinesOnly i f (l, s)")
    from step None have l1: "lp_cachedFaces l1 = lp_cachedFaces l"
      "lp_facePromises l1 = lp_facePromises l @ [?p]"
      by (auto simp: FaceCache_face_miss)
    from FaceCache_face_frame[of K stepData formNote outlinesOnly i f l s] step
    have fr: "faceCache s1 = faceCache s" "history s1 = history s" by simp_all
    from Cons.prems step
    have "FaceCache_faces K stepData formNote outlinesOnly (Suc i) fs (l1, s1) = (l', s')" by simp
    from Cons.IH[OF this] obtain cf fp where
      ih: "lp_cachedFaces l' = lp_cachedFaces l1 @ cf"
          "list_all2 (result_of_face s1) (filter (cache_hit s1) fs) cf"
          "lp_facePromises l' = lp_facePromises l1 @ fp"
          "list_all2 (\<lambda>f p. \<forall>b. snd p = Inr b \<longrightarrow> mb_model b = f)
             (filter (\<lambda>f. \<not> cache_hit s1 f) fs) fp"
      by blast
    have miss: "\<not> cache_hit s f" using None by (simp add: cache_hit_def)
    have m: "\<forall>b. snd ?p = Inr b \<longrightarrow> mb_model b = f"
      using calculateFace_model[of K s f stepData formNote i] by blast
    have ih2: "list_all2 (result_of_face s) (filter (cache_hit s) fs) cf"
      using ih(2) by (simp only: cache_hit_frame[OF fr] result_of_face_frame[OF fr])
    have ih4: "list_all2 (\<lambda>f p. \<forall>b. snd p = Inr b \<longrightarrow> mb_model b = f)
             (filter (\<lambda>f. \<not> cache_hit s f) fs) fp"
      using ih(4) by (simp only: cache_hit_frame[OF fr])
    have A: "lp_cachedFaces l' = lp_cachedFaces l @ cf"
      using ih(1) l1(1) by simp
    have B: "lp_facePromises l' = lp_facePromises l @ (?p # fp)"
      using ih(3) l1(2) by simp
    have C: "list_all2 (result_of_face s) (filter (cache_hit s) (f # fs)) cf"
      using ih2 miss by simp
    have fl: "filter (\<lambda>f. \<not> cache_hit s f) (f # fs) = f # filter (\<lambda>f. \<not> cache_hit s f) fs"
      using miss by simp
    have D: "list_all2 (\<lambda>f p. \<forall>b. snd p = Inr b \<longrightarrow> mb_model b = f)
             (filter (\<lambda>f. \<not> cache_hit s f) (f # fs)) (?p # fp)"
      unfolding fl using m ih4 by (rule list_all2_Cons[THEN iffD2, OF conjI])
    from A B C D show ?thesis by blast
  next
    case (Some g)
    obtain b es where g: "g = (b, es)" by (cases g)
    have step: "FaceCache_face K stepData formNote outlinesOnly i f (l, s) =
       (l\<lparr>lp_cachedFaces := lp_cachedFaces l @ [b], lp_cachedEdges := lp_cachedEdges l @ es\<rparr>, s)"
      using Some g by (simp add: FaceCache_face_hit)
    from Cons.prems step
    have "FaceCache_faces K stepData formNote outlinesOnly (Suc i) fs
        (l\<lparr>lp_cachedFaces := lp_cachedFaces l @ [b], lp_cachedEdges := lp_cachedEdges l @ es\<rparr>, s)
          = (l', s')" by simp
    from Cons.IH[OF this] obtain cf fp where
      ih: "lp_cachedFaces l' = (lp_cachedFaces l @ [b]) @ cf"
          "list_all2 (result_of_face s) (filter (cache_hit s) fs) cf"
          "lp_facePromises l' = lp_facePromises l @ fp"
          "list_all2 (\<lambda>f p. \<forall>b. snd p = Inr b \<longrightarrow> mb_model b = f)
             (filter (\<lambda>f. \<not> cache_hit s f) fs) fp"
      by auto
    have hit: "cache_hit s f" using Some by (simp add: cache_hit_def)
    have r: "result_of_face s f b" using Some g by (simp add: result_of_face_def)
    have A: "lp_cachedFaces l' = lp_cachedFaces l @ (b # cf)"
      using ih(1) by simp
    have C: "list_all2 (result_of_face s) (filter (cache_hit s) (f # fs)) (b # cf)"
      using ih(2) hit r by simp
    have D: "list_all2 (\<lambda>f p. \<forall>b. snd p = Inr b \<longrightarrow> mb_model b = f)
             (filter (\<lambda>f. \<not> cache_hit s f) (f # fs)) fp"
      using ih(4) hit by simp
    from A ih(3) C D show ?thesis by blast
  qed
qed

lemma FaceCache_loop_results:
  "list_all2 (result_of_face s) (filter (cache_hit s) (GetFaces obj))
          (lp_cachedFaces (FaceCache_loop K s obj stepData formNote outlinesOnly)) \<and>
        list_all2 (\<lambda>f p. \<forall>b. snd p = Inr b \<longrightarrow> mb_model b = f)
          (filter (\<lambda>f. \<not> cache_hit s f) (GetFaces obj))
          (lp_facePromises (FaceCache_loop K s obj stepData formNote outlinesOnly))"
proof -
  let ?s1 = "emit EnterParallelRegion s"
  obtain l' s' where run: "FaceCache_faces K stepData formNote outlinesOnly 0 (GetFaces obj)
       (FaceLoop_init, ?s1) = (l', s')"
    by (cases "FaceCache_faces K stepData formNote outlinesOnly 0 (GetFaces obj) (FaceLoop_init, ?s1)")
  have l': "FaceCache_loop K s obj stepData formNote outlinesOnly = l'"
    using run by (simp add: FaceCache_loop_def)
  have fr: "faceCache ?s1 = faceCache s" "history ?s1 = history s" by simp_all
  from FaceCache_faces_results[OF run] obtain cf fp where
    r: "lp_cachedFaces l' = lp_cachedFaces FaceLoop_init @ cf"
       "list_all2 (result_of_face ?s1) (filter (cache_hit ?s1) (GetFaces obj)) cf"
       "lp_facePromises l' = lp_facePromises FaceLoop_init @ fp"
       "list_all2 (\<lambda>f p. \<forall>b. snd p = Inr b \<longrightarrow> mb_model b = f)
             (filter (\<lambda>f. \<not> cache_hit ?s1 f) (GetFaces obj)) fp"
    by blast
  have cf: "lp_cachedFaces l' = cf" and fp: "lp_facePromises l' = fp"
    using r(1,3) by (simp_all add: FaceLoop_init_def)
  have a: "list_all2 (result_of_face s) (filter (cache_hit s) (GetFaces obj)) (lp_cachedFaces l')"
    using r(2) unfolding cf by (simp only: cache_hit_frame[OF fr] result_of_face_frame[OF fr])
  have b: "list_all2 (\<lambda>f p. \<forall>b. snd p = Inr b \<longrightarrow> mb_model b = f)
          (filter (\<lambda>f. \<not> cache_hit s f) (GetFaces obj)) (lp_facePromises l')"
    using r(4) unfolding fp by (simp only: cache_hit_frame[OF fr])
  from a b show ?thesis unfolding l' by simp
qed

text \<open>
  C4 (as amended). A successful \<^verbatim>\<open>create\<close> call on a solid through the plain
  parallel strategy returns the faces in the declared order of the solid. Through the
  face-caching strategy it returns first the results of the faces that are cache hits,
  in declared order, and then the results of the recomputed faces, in declared order.
\<close>

theorem create_face_order:
  assumes solid: "IsA obj = Solid"
  shows "(fst (ParallelMeshCreator_create K s obj stepData formNote outlinesOnly) = (t, Inr m) \<longrightarrow>
            map mb_model (faces m) = GetFaces obj) \<and>
         (fst (FaceCacheMeshCreator_create K s obj stepData formNote outlinesOnly) = (t', Inr m') \<longrightarrow>
            list_all2 (result_of_face s)
              (filter (cache_hit s) (GetFaces obj) @ filter (\<lambda>f. \<not> cache_hit s f) (GetFaces obj))
              (faces m'))"
proof (intro conjI impI)
  assume ok: "fst (ParallelMeshCreator_create K s obj stepData formNote outlinesOnly) = (t, Inr m)"
  let ?fps = "Parallel_facePromises K s obj stepData formNote"
  from ok obtain t1 where all: "Promise_all (now s) ?fps = (t1, Inr (faces m))"
    by (auto simp: Parallel_create_solid[OF solid] split: prod.splits sum.splits)
  have "list_all2 (\<lambda>f p. \<forall>b. snd p = Inr b \<longrightarrow> mb_model b = f) (GetFaces obj) ?fps"
    using calculateFaces_models[where fs = "GetFaces obj" and i = 0 and K = K and stepData = stepData
        and formNote = formNote and s = "emit EnterParallelRegion s"]
    by (auto simp: Parallel_facePromises_def elim: list_all2_mono)
  then have "list_all2 (\<lambda>f b. mb_model b = f) (GetFaces obj) (faces m)"
    using Promise_all_Inr[OF all] by (auto intro: list_all2_fulfilled)
  then show "map mb_model (faces m) = GetFaces obj"
    by (induction rule: list_all2_induct) auto
next
  assume ok: "fst (FaceCacheMeshCreator_create K s obj stepData formNote outlinesOnly) = (t', Inr m')"
  let ?l = "FaceCache_loop K s obj stepData formNote outlinesOnly"
  from ok obtain t1 faceResult where all: "Promise_all (now s) (lp_facePromises ?l) = (t1, Inr faceResult)"
    and m': "faces m' = lp_cachedFaces ?l @ faceResult"
    by (auto simp: FaceCache_create_solid[OF solid] split: prod.splits sum.splits)
  from FaceCache_loop_results[where K = K and s = s and obj = obj and stepData = stepData
      and formNote = formNote and outlinesOnly = outlinesOnly]
  have hits: "list_all2 (result_of_face s) (filter (cache_hit s) (GetFaces obj)) (lp_cachedFaces ?l)"
    and misses: "list_all2 (\<lambda>f p. \<forall>b. snd p = Inr b \<longrightarrow> mb_model b = f)
          (filter (\<lambda>f. \<not> cache_hit s f) (GetFaces obj)) (lp_facePromises ?l)"
    by simp_all
  have "list_all2 (\<lambda>f b. mb_model b = f) (filter (\<lambda>f. \<not> cache_hit s f) (GetFaces obj)) faceResult"
    using misses Promise_all_Inr[OF all] by (auto intro: list_all2_fulfilled)
  then have "list_all2 (result_of_face s) (filter (\<lambda>f. \<not> cache_hit s f) (GetFaces obj)) faceResult"
    by (rule list.rel_mono_strong) (auto simp: result_of_face_def cache_hit_def split: option.splits)
  with hits show "list_all2 (result_of_face s)
              (filter (cache_hit s) (GetFaces obj) @ filter (\<lambda>f. \<not> cache_hit s f) (GetFaces obj))
              (faces m')"
    unfolding m' by (rule list_all2_appendI)
qed

lemma after_first_call_eval:
  "now after_first_call = 1"
  "queue after_first_call = []"
  "history after_first_call = [10 \<mapsto> 100, 11 \<mapsto> 101]"
  "faceCache after_first_call 101 = Some (\<lparr>mb_index = [0, 1, 2], mb_position = [1 / 100], mb_normal = [],
           mb_model = unchanged_face 11 [1, 2], mb_style = 0, mb_simpleName = 11, mb_i = 1\<rparr>,
          [\<lparr>eb_position = [], eb_model = 1, eb_i = 2\<rparr>, \<lparr>eb_position = [], eb_model = 2, eb_i = 3\<rparr>])"
  by (simp_all add: after_first_call_def run_defs)

theorem create_face_order_witness:
  "IsA two_faces_edited = Solid \<and>
   map mb_model (promised_faces (fst (ParallelMeshCreator_create plain_kernel after_first_call
      two_faces_edited sag2 plain_form False))) = GetFaces two_faces_edited \<and>
   list_all2 (result_of_face after_first_call) [unchanged_face 11 [1, 2], changed_face 10 [0, 1]]
     (promised_faces (fst edited_call))"
proof -
  let ?p = "fst (ParallelMeshCreator_create plain_kernel after_first_call
      two_faces_edited sag2 plain_form False)"
  have solid: "IsA two_faces_edited = Solid" by (simp add: two_faces_edited_def)
  have "\<not> rejected ?p" by (simp add: after_first_call_def run_defs)
  then obtain t m where p: "?p = (t, Inr m)"
    by (cases ?p, cases "snd ?p") (auto simp: rejected_def)
  have "\<not> rejected (fst edited_call)" by (simp add: call_defs after_first_call_def run_defs)
  then obtain t' m' where f: "fst edited_call = (t', Inr m')"
    by (cases "fst edited_call", cases "snd (fst edited_call)") (auto simp: rejected_def)
  have f': "fst (FaceCacheMeshCreator_create plain_kernel after_first_call two_faces_edited sag2
      plain_form False) = (t', Inr m')"
    using f by (simp add: edited_call_def)
  have hits: "filter (cache_hit after_first_call) (GetFaces two_faces_edited) = [unchanged_face 11 [1, 2]]"
    and misses: "filter (\<lambda>f. \<not> cache_hit after_first_call f) (GetFaces two_faces_edited) =
      [changed_face 10 [0, 1]]"
    by (simp_all add: after_first_call_def run_defs)
  from create_face_order[OF solid, of plain_kernel after_first_call sag2 plain_form False t m t' m']
    p f' solid show ?thesis
    by (simp add: promised_faces_def f hits misses)
qed

text \<open>
  C4 as stated fails. The edited solid declares the faces 10 and 11. The first is
  recomputed and the second is a cache hit, and the call returns the result of face 11
  before that of face 10.
\<close>

theorem face_order_mixed_call:
  "\<not> rejected (fst edited_call) \<and>
   map Face_Id (GetFaces two_faces_edited) = [10, 11] \<and>
   map (\<lambda>b. Face_Id (mb_model b)) (promised_faces (fst edited_call)) = [11, 10] \<and>
   \<not> list_all2 (result_of_face after_first_call) (GetFaces two_faces_edited)
       (promised_faces (fst edited_call))"
  by (simp add: call_defs after_first_call_def run_defs)

subsection \<open>Rejected tasks and the parallel region\<close>



text \<open>
  C6 fails on the code. When the grid computation of the one face rejects, the call
  rejects and the parallel region it entered is never left, through either strategy;
  when the computation fulfils, the region is left.
\<close>

theorem create_rejection_leaves_region_entered:
  "rejected (fst (ParallelMeshCreator_create failing_kernel tracked one_face sag1 plain_form False)) \<and>
   (\<forall>t. region_depth (events (settle_until t
      (snd (ParallelMeshCreator_create failing_kernel tracked one_face sag1 plain_form False)))) = 1) \<and>
   rejected (fst (FaceCacheMeshCreator_create failing_kernel tracked one_face sag1 plain_form False)) \<and>
   (\<forall>t. region_depth (events (settle_until t
      (snd (FaceCacheMeshCreator_create failing_kernel tracked one_face sag1 plain_form False)))) = 1) \<and>
   region_depth (events (settle_until 1
      (snd (FaceCacheMeshCreator_create plain_kernel tracked one_face sag1 plain_form False)))) = 0"
  by (simp add: run_defs)

subsection \<open>The face cache\<close>

lemma faceCache_foldl:
  "faceCache (foldl apply_effect s effs) = table_after (faceCache s) effs"
proof (induction effs arbitrary: s)
  case Nil
  then show ?case by simp
next
  case (Cons eff effs)
  then show ?case by (cases eff) (simp_all add: fun_upd_def)
qed

lemma settle_until_faceCache:
  "faceCache (settle_until t s) =
     table_after (faceCache s) (map snd (sort_key fst (filter (\<lambda>q. fst q \<le> t) (queue s))))"
  by (simp add: settle_until_def faceCache_foldl)

lemma settle_until_same_table:
  "queue s' = queue s \<Longrightarrow> faceCache s' = faceCache s \<Longrightarrow>
   faceCache (settle_until t s') = faceCache (settle_until t s)"
  by (simp add: settle_until_faceCache)

text \<open>
  C10. One round of the loop for a face that is not taken from the table: the table
  is not written while the call runs. A \<^verbatim>\<open>faceCache.set\<close> for the lineage id
  is queued only when the face is cacheable and its grid promise and every one of its
  edge promises fulfil, and then it runs at a tick by which all of them have settled.
  When the grid promise or one of the edge promises rejects, nothing is queued, and
  the table is at every later tick what it would have been without this round.
\<close>

theorem cacheFace_only_after_success:
  assumes miss: "existingGrid s face = None"
    and face: "calculateFace K s face stepData formNote i = (facePromise, s1)"
    and edges: "calculateEdges K stepData formNote outlinesOnly (lp_j l)
                  (filter (\<lambda>e. e \<notin> lp_seenEdges l) (Face_GetEdges face)) s1 = (faceEdgePromises, s2)"
    and step: "FaceCache_face K stepData formNote outlinesOnly i face (l, s) = (l', s')"
  shows "faceCache s' = faceCache s \<and>
         (if \<not> GetOwnChanged face \<and> history s (Face_Id face) \<noteq> None \<and>
             \<not> rejected facePromise \<and> \<not> list_ex rejected faceEdgePromises
          then \<exists>t k b. queue s' =
                  queue s @ [(t, FaceCache_set k (b, defined_edges (fulfilled_values faceEdgePromises)))] \<and>
                history s (Face_Id face) = Some k \<and> snd facePromise = Inr b \<and>
                now s < t \<and> fst facePromise \<le> t \<and> list_all (\<lambda>p. fst p \<le> t) faceEdgePromises
          else queue s' = queue s \<and>
               (\<forall>t. faceCache (settle_until t s') = faceCache (settle_until t s)))"
proof -
  let ?c = "\<not> GetOwnChanged face \<and> history s (Face_Id face) \<noteq> None"
  have s1: "s1 = emit (CalculateGrid (Face_Id face) i) s" and fp: "facePromise = fst (calculateFace K s face stepData formNote i)"
    using face calculateFace_state[of K s face stepData formNote i] by auto
  have s2: "s2 = snd (calculateEdges K stepData formNote outlinesOnly (lp_j l)
                  (filter (\<lambda>e. e \<notin> lp_seenEdges l) (Face_GetEdges face)) s1)"
    and eps: "faceEdgePromises = fst (calculateEdges K stepData formNote outlinesOnly (lp_j l)
                  (filter (\<lambda>e. e \<notin> lp_seenEdges l) (Face_GetEdges face)) s1)"
    using edges by auto
  have s': "s' = cacheFace s2 (history s (Face_Id face)) ?c facePromise faceEdgePromises"
    using step by (simp add: FaceCache_face_miss[OF miss] s1 s2 fp eps)
  have fr: "now s2 = now s" "queue s2 = queue s" "faceCache s2 = faceCache s"
    by (simp_all add: s2 s1)
  have tbl: "faceCache s' = faceCache s" by (simp add: s' fr)
  have time: "now s < fst facePromise"
    by (simp add: fp calculateFace_def Let_def case_prod_beta)
  show ?thesis
  proof (cases "?c \<and> \<not> rejected facePromise \<and> \<not> list_ex rejected faceEdgePromises")
    case True
    then obtain k where k: "history s (Face_Id face) = Some k" by auto
    from True obtain b where b: "snd facePromise = Inr b"
      by (cases "snd facePromise") (auto simp: rejected_def)
    let ?t1 = "reaction_time (now s) facePromise"
    from True have none: "first_rejection ?t1 faceEdgePromises = None"
      by (simp add: first_rejection_None)
    then have all: "Promise_all ?t1 faceEdgePromises =
        (last_reaction ?t1 faceEdgePromises, Inr (fulfilled_values faceEdgePromises))"
      by (simp add: Promise_all_def)
    let ?t = "last_reaction ?t1 faceEdgePromises"
    have q: "queue s' = queue s @ [(?t, FaceCache_set k (b, defined_edges (fulfilled_values faceEdgePromises)))]"
      using True k b all by (simp add: s' cacheFace_def fr)
    have t1: "fst facePromise \<le> ?t1" by (simp add: reaction_time_def)
    have ge: "?t1 \<le> ?t" by (rule last_reaction_ge)
    have le: "list_all (\<lambda>p. fst p \<le> ?t) faceEdgePromises"
      using last_reaction_ge_mem[of _ faceEdgePromises ?t1] by (simp add: list_all_iff)
    have lt: "now s < ?t" and fle: "fst facePromise \<le> ?t"
      using time t1 ge by simp_all
    have "\<exists>t k b. queue s' =
                  queue s @ [(t, FaceCache_set k (b, defined_edges (fulfilled_values faceEdgePromises)))] \<and>
                history s (Face_Id face) = Some k \<and> snd facePromise = Inr b \<and>
                now s < t \<and> fst facePromise \<le> t \<and> list_all (\<lambda>p. fst p \<le> t) faceEdgePromises"
      using q k b lt fle le by blast
    with True tbl show ?thesis by simp
  next
    case False
    then have "s' = s2"
      unfolding s' by (intro cacheFace_nothing) blast
    with fr tbl have q: "queue s' = queue s" by simp
    have "\<forall>t. faceCache (settle_until t s') = faceCache (settle_until t s)"
      using settle_until_same_table[OF q tbl] by blast
    with q tbl False show ?thesis by simp
  qed
qed

theorem cacheFace_only_after_success_witness:
  "existingGrid tracked (unchanged_face 10 [0, 1]) = None \<and>
   faceCache (snd fulfilled_round) = faceCache tracked \<and>
   (\<exists>t k b. queue (snd fulfilled_round) =
        queue tracked @
          [(t, FaceCache_set k (b, defined_edges (fulfilled_values
             (fst (calculateEdges plain_kernel sag1 plain_form False 0 [0, 1]
                (snd (calculateFace plain_kernel tracked (unchanged_face 10 [0, 1]) sag1 plain_form 0)))))))] \<and>
      history tracked 10 = Some k \<and>
      snd (fst (calculateFace plain_kernel tracked (unchanged_face 10 [0, 1]) sag1 plain_form 0)) = Inr b \<and>
      now tracked < t) \<and>
   queue (snd fulfilled_round) =
     [(1, FaceCache_set 100
           (\<lparr>mb_index = [0, 1, 2], mb_position = [1 / 100], mb_normal = [],
              mb_model = unchanged_face 10 [0, 1], mb_style = 0, mb_simpleName = 10, mb_i = 0\<rparr>,
            [\<lparr>eb_position = [], eb_model = 0, eb_i = 0\<rparr>, \<lparr>eb_position = [], eb_model = 1, eb_i = 1\<rparr>]))] \<and>
   rejected (fst (calculateFace failing_kernel tracked (unchanged_face 10 [0, 1]) sag1 plain_form 0)) \<and>
   queue (snd rejected_round) = queue tracked \<and>
   (\<forall>t. faceCache (settle_until t (snd rejected_round)) = faceCache (settle_until t tracked))"
proof -
  let ?f = "unchanged_face 10 [0, 1]"
  let ?fp = "fst (calculateFace plain_kernel tracked ?f sag1 plain_form 0)"
  let ?s1 = "snd (calculateFace plain_kernel tracked ?f sag1 plain_form 0)"
  let ?es = "filter (\<lambda>e. e \<notin> lp_seenEdges FaceLoop_init) (Face_GetEdges ?f)"
  let ?eps = "fst (calculateEdges plain_kernel sag1 plain_form False (lp_j FaceLoop_init) ?es ?s1)"
  have miss: "existingGrid tracked ?f = None"
    by (simp add: run_defs)
  have r1: "FaceCache_face plain_kernel sag1 plain_form False 0 ?f (FaceLoop_init, tracked) =
      (fst fulfilled_round, snd fulfilled_round)"
    by (simp add: fulfilled_round_def)
  have r2: "FaceCache_face failing_kernel sag1 plain_form False 0 ?f (FaceLoop_init, tracked) =
      (fst rejected_round, snd rejected_round)"
    by (simp add: rejected_round_def)
  have ok: "\<not> GetOwnChanged ?f \<and> history tracked (Face_Id ?f) \<noteq> None \<and>
             \<not> rejected ?fp \<and> \<not> list_ex rejected ?eps"
    by (simp add: run_defs)
  have es: "?es = [0, 1]" and j: "lp_j FaceLoop_init = 0" and fid: "Face_Id ?f = 10"
    by (simp_all add: FaceLoop_init_def unchanged_face_def)
  have rej: "rejected (fst (calculateFace failing_kernel tracked ?f sag1 plain_form 0))"
    by (simp add: run_defs)
  have q: "queue (snd fulfilled_round) =
     [(1, FaceCache_set 100
           (\<lparr>mb_index = [0, 1, 2], mb_position = [1 / 100], mb_normal = [],
              mb_model = unchanged_face 10 [0, 1], mb_style = 0, mb_simpleName = 10, mb_i = 0\<rparr>,
            [\<lparr>eb_position = [], eb_model = 0, eb_i = 0\<rparr>, \<lparr>eb_position = [], eb_model = 1, eb_i = 1\<rparr>]))]"
    by (simp add: fulfilled_round_def run_defs)
  note th = cacheFace_only_after_success[OF miss surjective_pairing surjective_pairing r1]
  have a: "faceCache (snd fulfilled_round) = faceCache tracked"
    using th by blast
  from th ok have "\<exists>t k b. queue (snd fulfilled_round) =
        queue tracked @ [(t, FaceCache_set k (b, defined_edges (fulfilled_values ?eps)))] \<and>
      history tracked (Face_Id ?f) = Some k \<and> snd ?fp = Inr b \<and> now tracked < t"
    by (simp only: if_True simp_thms) blast
  then have c: "\<exists>t k b. queue (snd fulfilled_round) =
        queue tracked @
          [(t, FaceCache_set k (b, defined_edges (fulfilled_values
             (fst (calculateEdges plain_kernel sag1 plain_form False 0 [0, 1] ?s1)))))] \<and>
      history tracked 10 = Some k \<and> snd ?fp = Inr b \<and> now tracked < t"
    by (simp only: es j fid)
  have b: "queue (snd rejected_round) = queue tracked \<and>
   (\<forall>t. faceCache (settle_until t (snd rejected_round)) = faceCache (settle_until t tracked))"
    using cacheFace_only_after_success[OF miss surjective_pairing surjective_pairing r2] rej
    by auto
  from miss a c q rej b show ?thesis by blast
qed

lemma calculateFace_table:
  "calculateFace K (s\<lparr>faceCache := fc\<rparr>) face stepData formNote i =
     (fst (calculateFace K s face stepData formNote i),
      (snd (calculateFace K s face stepData formNote i))\<lparr>faceCache := fc\<rparr>)"
  by (simp add: calculateFace_def emit_def Let_def case_prod_beta)

lemma calculateEdge_table:
  "calculateEdge K (s\<lparr>faceCache := fc\<rparr>) edge stepData formNote outlinesOnly i =
     (fst (calculateEdge K s edge stepData formNote outlinesOnly i),
      (snd (calculateEdge K s edge stepData formNote outlinesOnly i))\<lparr>faceCache := fc\<rparr>)"
  by (simp add: calculateEdge_def emit_def Let_def case_prod_beta)

lemma calculateEdges_table:
  "calculateEdges K stepData formNote outlinesOnly i es (s\<lparr>faceCache := fc\<rparr>) =
     (fst (calculateEdges K stepData formNote outlinesOnly i es s),
      (snd (calculateEdges K stepData formNote outlinesOnly i es s))\<lparr>faceCache := fc\<rparr>)"
proof (induction es arbitrary: i s)
  case Nil
  then show ?case by simp
next
  case (Cons e es)
  then show ?case
    by (simp add: calculateEdge_table Let_def case_prod_beta)
qed

text \<open>
  C8 (as amended). One round of the loop. For a face that reports a change or has no
  lineage id the round is the same whatever the table holds: the table is not read. For
  a face that reports no change, with a lineage id and an entry under it, the round
  takes the entry and calls nothing. A face that reports a change is recomputed and its
  result is not stored: nothing is queued, and the table is at every later tick what
  it would have been without this round.
\<close>

theorem FaceCache_face_cacheable_only:
  assumes step: "FaceCache_face K stepData formNote outlinesOnly i face (l, s) = (l', s')"
  shows "(GetOwnChanged face \<or> history s (Face_Id face) = None \<longrightarrow>
            FaceCache_face K stepData formNote outlinesOnly i face (l, s\<lparr>faceCache := fc\<rparr>) =
              (l', s'\<lparr>faceCache := fc\<rparr>)) \<and>
         (\<not> GetOwnChanged face \<and> history s (Face_Id face) = Some k \<and> faceCache s k = Some (b, es) \<longrightarrow>
            l' = l\<lparr>lp_cachedFaces := lp_cachedFaces l @ [b], lp_cachedEdges := lp_cachedEdges l @ es\<rparr> \<and>
            s' = s) \<and>
         (GetOwnChanged face \<longrightarrow>
            lp_cachedFaces l' = lp_cachedFaces l \<and>
            lp_facePromises l' = lp_facePromises l @ [fst (calculateFace K s face stepData formNote i)] \<and>
            (\<exists>evs. events s' = events s @ CalculateGrid (Face_Id face) i # evs) \<and>
            queue s' = queue s \<and> faceCache s' = faceCache s \<and>
            (\<forall>t. faceCache (settle_until t s') = faceCache (settle_until t s)))"
proof (intro conjI impI)
  assume u: "GetOwnChanged face \<or> history s (Face_Id face) = None"
  then have u': "GetOwnChanged face \<or> history (s\<lparr>faceCache := fc\<rparr>) (Face_Id face) = None"
    by simp
  have e: "\<And>ev. emit ev (s\<lparr>faceCache := fc\<rparr>) = (emit ev s)\<lparr>faceCache := fc\<rparr>"
    by (simp add: emit_def)
  show "FaceCache_face K stepData formNote outlinesOnly i face (l, s\<lparr>faceCache := fc\<rparr>) =
              (l', s'\<lparr>faceCache := fc\<rparr>)"
    using step
    by (simp add: FaceCache_face_uncacheable[OF u] FaceCache_face_uncacheable[OF u'] e
        calculateFace_table calculateEdges_table)
next
  assume "\<not> GetOwnChanged face \<and> history s (Face_Id face) = Some k \<and> faceCache s k = Some (b, es)"
  then have "existingGrid s face = Some (b, es)" by (simp add: existingGrid_cacheable)
  from FaceCache_face_hit[OF this, of K stepData formNote outlinesOnly i l] step
  have hit: "l' = l\<lparr>lp_cachedFaces := lp_cachedFaces l @ [b], lp_cachedEdges := lp_cachedEdges l @ es\<rparr> \<and> s' = s"
    by simp
  from hit show "l' = l\<lparr>lp_cachedFaces := lp_cachedFaces l @ [b], lp_cachedEdges := lp_cachedEdges l @ es\<rparr>" ..
  from hit show "s' = s" ..
next
  assume c: "GetOwnChanged face"
  then have miss: "existingGrid s face = None" by (simp add: existingGrid_uncacheable)
  let ?s2 = "snd (calculateEdges K stepData formNote outlinesOnly (lp_j l)
                 (filter (\<lambda>e. e \<notin> lp_seenEdges l) (Face_GetEdges face))
                 (emit (CalculateGrid (Face_Id face) i) s))"
  from c have u: "GetOwnChanged face \<or> history s (Face_Id face) = None" by simp
  from step have l': "l' = l\<lparr>lp_facePromises := lp_facePromises l @ [fst (calculateFace K s face stepData formNote i)],
        lp_edgePromises := lp_edgePromises l @
          fst (calculateEdges K stepData formNote outlinesOnly (lp_j l)
                 (filter (\<lambda>e. e \<notin> lp_seenEdges l) (Face_GetEdges face))
                 (emit (CalculateGrid (Face_Id face) i) s)),
        lp_j := lp_j l + length (filter (\<lambda>e. e \<notin> lp_seenEdges l) (Face_GetEdges face))\<rparr>"
    and s': "s' = ?s2"
    by (simp_all add: FaceCache_face_uncacheable[OF u])
  show "lp_cachedFaces l' = lp_cachedFaces l" by (simp add: l')
  show "lp_facePromises l' = lp_facePromises l @ [fst (calculateFace K s face stepData formNote i)]"
    by (simp add: l')
  show "\<exists>evs. events s' = events s @ CalculateGrid (Face_Id face) i # evs"
    using calculateEdges_events[of K stepData formNote outlinesOnly "lp_j l"
        "filter (\<lambda>e. e \<notin> lp_seenEdges l) (Face_GetEdges face)" "emit (CalculateGrid (Face_Id face) i) s"]
    by (auto simp: s')
  show q: "queue s' = queue s" by (simp add: s')
  show t: "faceCache s' = faceCache s" by (simp add: s')
  show "\<forall>t. faceCache (settle_until t s') = faceCache (settle_until t s)"
    using settle_until_same_table[OF q t] by blast
qed

theorem FaceCache_face_cacheable_only_witness:
  "GetOwnChanged (changed_face 10 [0, 1]) \<and>
   FaceCache_face plain_kernel sag2 plain_form False 0 (changed_face 10 [0, 1])
       (FaceLoop_init, after_first_call\<lparr>faceCache := Map.empty\<rparr>) =
     (fst changed_round, (snd changed_round)\<lparr>faceCache := Map.empty\<rparr>) \<and>
   lp_cachedFaces (fst changed_round) = [] \<and>
   queue (snd changed_round) = queue after_first_call \<and>
   faceCache (snd changed_round) = faceCache after_first_call \<and>
   (\<forall>t. faceCache (settle_until t (snd changed_round)) = faceCache (settle_until t after_first_call)) \<and>
   lp_cachedFaces (fst hit_round) =
     [\<lparr>mb_index = [0, 1, 2], mb_position = [1 / 100], mb_normal = [],
        mb_model = unchanged_face 11 [1, 2], mb_style = 0, mb_simpleName = 11, mb_i = 1\<rparr>] \<and>
   snd hit_round = after_first_call"
proof -
  have c: "GetOwnChanged (changed_face 10 [0, 1])"
    by (simp add: changed_face_def)
  have r1: "FaceCache_face plain_kernel sag2 plain_form False 0 (changed_face 10 [0, 1])
       (FaceLoop_init, after_first_call) = (fst changed_round, snd changed_round)"
    by (simp add: changed_round_def)
  have r2: "FaceCache_face plain_kernel sag2 plain_form False 1 (unchanged_face 11 [1, 2])
       (FaceLoop_init, after_first_call) = (fst hit_round, snd hit_round)"
    by (simp add: hit_round_def)
  have u: "\<not> GetOwnChanged (unchanged_face 11 [1, 2])"
    and h: "history after_first_call (Face_Id (unchanged_face 11 [1, 2])) = Some 101"
    by (simp_all add: unchanged_face_def after_first_call_eval)
  note e = after_first_call_eval(4)
  from FaceCache_face_cacheable_only[OF r1, where fc = Map.empty]
    FaceCache_face_cacheable_only[OF r2, where k = 101 and b = "\<lparr>mb_index = [0, 1, 2], mb_position = [1 / 100], mb_normal = [],
        mb_model = unchanged_face 11 [1, 2], mb_style = 0, mb_simpleName = 11, mb_i = 1\<rparr>"
        and es = "[\<lparr>eb_position = [], eb_model = 1, eb_i = 2\<rparr>, \<lparr>eb_position = [], eb_model = 2, eb_i = 3\<rparr>]"]
    c u h e
  show ?thesis
    by (simp add: FaceLoop_init_def)
qed

text \<open>
  C8 as stated fails. Face 10 of the edited solid reports a change and has lineage 100.
  The call recomputes it, at the second sag, and when all continuations of the call have
  run the table still holds under 100 the entry of the first call.
\<close>

theorem changed_face_entry_not_overwritten:
  "GetFaces two_faces_edited ! 0 = changed_face 10 [0, 1] \<and>
   GetOwnChanged (changed_face 10 [0, 1]) \<and>
   history after_first_call (Face_Id (changed_face 10 [0, 1])) = Some 100 \<and>
   faceCache after_first_call 100 =
     Some (\<lparr>mb_index = [0, 1, 2], mb_position = [GetSag sag1], mb_normal = [],
            mb_model = unchanged_face 10 [0, 1], mb_style = 0, mb_simpleName = 10, mb_i = 0\<rparr>,
           [\<lparr>eb_position = [], eb_model = 0, eb_i = 0\<rparr>, \<lparr>eb_position = [], eb_model = 1, eb_i = 1\<rparr>]) \<and>
   promised_faces (fst edited_call) ! 1 =
     \<lparr>mb_index = [0, 1, 2], mb_position = [GetSag sag2], mb_normal = [],
      mb_model = changed_face 10 [0, 1], mb_style = 0, mb_simpleName = 10, mb_i = 0\<rparr> \<and>
   faceCache (settle_until 2 (snd edited_call)) 100 = faceCache after_first_call 100 \<and>
   queue (settle_until 2 (snd edited_call)) = []"
  by (simp add: call_defs after_first_call_def run_defs)

text \<open>
  C9. In one session, the entry the call at the first sag stores for lineage 100 (there
  was none before) is what the call at the second sag returns for the unchanged face:
  its positions are those of the first sag, and the second call logs no kernel call. A
  call at the second sag that finds no entry returns the positions of the second sag.
\<close>

theorem face_cache_ignores_precision:
  "formAndPrecisionCacheKey sag1 plain_form \<noteq> formAndPrecisionCacheKey sag2 plain_form \<and>
   faceCache tracked 100 = None \<and>
   faceCache (settle_until 1 (snd (snd first_call))) 100 =
     Some (\<lparr>mb_index = [0, 1, 2], mb_position = [GetSag sag1], mb_normal = [],
            mb_model = unchanged_face 10 [0], mb_style = 0, mb_simpleName = 10, mb_i = 0\<rparr>,
           [\<lparr>eb_position = [], eb_model = 0, eb_i = 0\<rparr>]) \<and>
   promised_faces (fst second_call) =
     [\<lparr>mb_index = [0, 1, 2], mb_position = [GetSag sag1], mb_normal = [],
        mb_model = unchanged_face 10 [0], mb_style = 0, mb_simpleName = 10, mb_i = 0\<rparr>] \<and>
   events (snd (snd second_call)) =
     events (settle_until 1 (snd (snd first_call))) @ [EnterParallelRegion] \<and>
   promised_faces (fst (FaceCacheMeshCreator_create plain_kernel tracked one_face sag2 plain_form False)) =
     [\<lparr>mb_index = [0, 1, 2], mb_position = [GetSag sag2], mb_normal = [],
        mb_model = unchanged_face 10 [0], mb_style = 0, mb_simpleName = 10, mb_i = 0\<rparr>]"
  by (simp add: call_defs run_defs)

text \<open>
  C2 fails on the code. The cube has twelve edges; one face-caching
  \<^verbatim>\<open>create\<close> call computes 24 edges and returns 24 edge buffers, every edge
  twice. The plain parallel strategy returns twelve.
\<close>

theorem FaceCache_cube_edges_twice:
  "length (Item_GetEdges cube) = 12 \<and>
   map eb_model (promised_edges (fst cube_call)) =
     [0, 1, 2, 3, 4, 5, 6, 7, 0, 4, 8, 9, 1, 5, 9, 10, 2, 6, 10, 11, 3, 7, 11, 8] \<and>
   length (promised_edges (fst cube_call)) = 24 \<and>
   length (filter is_CalculateMesh (events (snd cube_call))) = 24 \<and>
   length (promised_edges (fst (ParallelMeshCreator_create plain_kernel tracked_cube cube sag1 plain_form False))) = 12"
  by (simp add: cube_call_def tracked_cube_def run_defs)

end
